theory Spec2Isabelle
  imports Main
begin

section \<open>Python values\<close>

text \<open>
  The program is dynamically typed: the task body, the bodies of the remote's answers and
  the generated document are all values that \<open>json.loads\<close> can produce. One datatype
  holds them; \<open>JNull\<close> is Python's \<open>None\<close>, a dict is an association list read
  with \<open>map_of\<close>. Floats are not modelled.
\<close>

datatype json =
    JNull
  | JBool bool
  | JNum int
  | JStr string
  | JArr "json list"
  | JObj "(string \<times> json) list"

type_synonym dict = "(string \<times> json) list"

text \<open>Python truthiness (\<open>if x\<close>, \<open>not x\<close>, \<open>x or y\<close>).\<close>

fun truthy :: "json \<Rightarrow> bool" where
  "truthy JNull = False"
| "truthy (JBool b) = b"
| "truthy (JNum n) = (n \<noteq> 0)"
| "truthy (JStr s) = (s \<noteq> [])"
| "truthy (JArr xs) = (xs \<noteq> [])"
| "truthy (JObj kvs) = (kvs \<noteq> [])"

text \<open>\<open>x[:7]\<close> inside the log lines: defined on strings and lists only.\<close>

fun sliceable :: "json \<Rightarrow> bool" where
  "sliceable (JStr s) = True"
| "sliceable (JArr xs) = True"
| "sliceable v = False"

text \<open>\<open>round == 1\<close>: Python's \<open>True == 1\<close> holds as well.\<close>

fun equals_one :: "json \<Rightarrow> bool" where
  "equals_one (JNum n) = (n = 1)"
| "equals_one (JBool b) = b"
| "equals_one v = False"

text \<open>\<open>d.get(k)\<close>, \<open>d.get(k, default)\<close> and \<open>k in d\<close> on a dict.\<close>

definition dict_get :: "dict \<Rightarrow> string \<Rightarrow> json" where
  "dict_get d k = (case map_of d k of None \<Rightarrow> JNull | Some v \<Rightarrow> v)"

definition dict_get_default :: "dict \<Rightarrow> string \<Rightarrow> json \<Rightarrow> json" where
  "dict_get_default d k dflt = (case map_of d k of None \<Rightarrow> dflt | Some v \<Rightarrow> v)"

definition has_key :: "dict \<Rightarrow> string \<Rightarrow> bool" where
  "has_key d k = (map_of d k \<noteq> None)"

section \<open>Errors, requests and the trace of a run\<close>

datatype error =
    ConnectionError
  | JSONDecodeError
  | AttributeError
  | TypeError
  | KeyError string
  | IndexError
  | DecodeError
  | Failed_to_create_repo nat
  | Failed_to_enable_pages nat
  | Failed_to_get_commit nat
  | Failed_to_push json nat
  | LLM_call_failed nat

text \<open>
  The two prompts are f-strings over a fixed template; the model keeps the values that
  fill the holes. An attachment contributes its decoded text, or the data URI itself when
  decoding fails.
\<close>

datatype attachment_part =
    Text_part json string
  | Binary_part json string

datatype prompt =
    Initial_prompt json "json list" "attachment_part list"
  | Update_prompt json "json list" "attachment_part list" "(json \<times> json) list"

datatype verb = Add | Update

record put_payload =
  message_verb :: verb
  message_file :: json
  message_round :: json
  payload_content :: string
  payload_sha :: "json option"

record evaluation_payload =
  ep_email :: json
  ep_task :: json
  ep_round :: json
  ep_nonce :: json
  ep_repo_url :: json
  ep_commit_sha :: json
  ep_pages_url :: json

text \<open>
  One constructor per endpoint the program calls; the repository name and the file path
  are the values interpolated into the URL.
\<close>

datatype request =
    Get_repo json
  | Get_contents json json
  | Post_user_repos json
  | Post_pages json
  | Get_commit json string
  | Put_contents json json put_payload
  | Post_chat prompt
  | Post_evaluation json evaluation_payload

text \<open>
  What \<open>requests\<close> hands back: an exception (no answer), or a status code and the
  body, \<open>None\<close> when the body is not JSON (\<open>response.json()\<close> raises).
\<close>

datatype http_result =
    Conn_err
  | Response nat "json option"

datatype event =
    Http request http_result
  | Sleep nat

type_synonym trace = "event list"

text \<open>
  The collaborators and the library functions the source imports. The remote answers a
  request as a function of everything the run has done so far, so it may change between
  two reads of the same file.
\<close>

record env =
  http :: "trace \<Rightarrow> request \<Rightarrow> http_result"
  json_loads :: "string \<Rightarrow> json option"
  b64decode_utf8 :: "string \<Rightarrow> string option"
  b64encode :: "string \<Rightarrow> string"

text \<open>A computation reads and extends the trace, and returns a value or raises.\<close>

type_synonym 'a io = "trace \<Rightarrow> (error + 'a) \<times> trace"

definition ret :: "'a \<Rightarrow> 'a io" where
  "ret x = (\<lambda>tr. (Inr x, tr))"

definition raise :: "error \<Rightarrow> 'a io" where
  "raise e = (\<lambda>tr. (Inl e, tr))"

definition bind :: "'a io \<Rightarrow> ('a \<Rightarrow> 'b io) \<Rightarrow> 'b io" where
  "bind m f = (\<lambda>tr. case m tr of (Inl e, tr') \<Rightarrow> (Inl e, tr') | (Inr x, tr') \<Rightarrow> f x tr')"

definition lift :: "error + 'a \<Rightarrow> 'a io" where
  "lift r = (\<lambda>tr. (r, tr))"

definition send :: "env \<Rightarrow> request \<Rightarrow> (nat \<times> json option) io" where
  "send e rq = (\<lambda>tr.
     (case http e tr rq of
        Conn_err \<Rightarrow> (Inl ConnectionError, tr @ [Http rq Conn_err])
      | Response st body \<Rightarrow> (Inr (st, body), tr @ [Http rq (Response st body)])))"

definition sleep :: "nat \<Rightarrow> unit io" where
  "sleep n = (\<lambda>tr. (Inr (), tr @ [Sleep n]))"

text \<open>\<open>response.json()\<close>, then a method of a dict on the result.\<close>

definition response_json :: "json option \<Rightarrow> error + json" where
  "response_json body = (case body of None \<Rightarrow> Inl JSONDecodeError | Some j \<Rightarrow> Inr j)"

fun as_dict :: "json \<Rightarrow> error + dict" where
  "as_dict (JObj d) = Inr d"
| "as_dict v = Inl AttributeError"

section \<open>Hosted-repository client\<close>

definition validate_secret :: "string option \<Rightarrow> json \<Rightarrow> bool" where
  "validate_secret SECRET secret =
     (case SECRET of None \<Rightarrow> secret = JNull | Some s \<Rightarrow> secret = JStr s)"

definition create_github_repo :: "env \<Rightarrow> json \<Rightarrow> json io" where
  "create_github_repo e repo_name =
     bind (send e (Post_user_repos repo_name)) (\<lambda>(st, body).
       if st \<noteq> 201 then raise (Failed_to_create_repo st)
       else lift (response_json body))"

definition enable_github_pages :: "env \<Rightarrow> json \<Rightarrow> unit io" where
  "enable_github_pages e repo_name =
     bind (send e (Post_pages repo_name)) (\<lambda>(st, body).
       if st \<noteq> 201 \<and> st \<noteq> 202 then raise (Failed_to_enable_pages st)
       else ret ())"

definition get_sha_of_latest_commit :: "env \<Rightarrow> json \<Rightarrow> json io" where
  "get_sha_of_latest_commit e repo_name =
     bind (send e (Get_commit repo_name ''main'')) (\<lambda>(st, body).
       if st \<noteq> 200 then raise (Failed_to_get_commit st)
       else lift (case response_json body of
                    Inl err \<Rightarrow> Inl err
                  | Inr j \<Rightarrow> (case as_dict j of
                               Inl err \<Rightarrow> Inl err
                             | Inr d \<Rightarrow> Inr (dict_get d ''sha''))))"

definition repository_exists :: "env \<Rightarrow> json \<Rightarrow> bool io" where
  "repository_exists e repo_name =
     bind (send e (Get_repo repo_name)) (\<lambda>(st, body). ret (st = 200))"

text \<open>
  Lines 88 to 92 of \<open>get_file_content_from_repo\<close>: what the function returns for an
  answer of the remote.
\<close>

definition file_of_response :: "env \<Rightarrow> nat \<times> json option \<Rightarrow> error + (string \<times> json)" where
  "file_of_response e r =
     (case r of (st, body) \<Rightarrow>
        if st = 200 then
          (case response_json body of
             Inl err \<Rightarrow> Inl err
           | Inr j \<Rightarrow>
              (case as_dict j of
                 Inl err \<Rightarrow> Inl err
               | Inr d \<Rightarrow>
                  (if truthy (dict_get d ''content'') then
                     (case dict_get d ''content'' of
                        JStr s \<Rightarrow>
                          (case b64decode_utf8 e s of
                             None \<Rightarrow> Inl DecodeError
                           | Some t \<Rightarrow> Inr (t, dict_get d ''sha''))
                      | _ \<Rightarrow> Inl TypeError)
                   else Inr ('''', dict_get d ''sha''))))
        else Inr ('''', JNull))"

definition get_file_content_from_repo :: "env \<Rightarrow> json \<Rightarrow> json \<Rightarrow> (string \<times> json) io" where
  "get_file_content_from_repo e repo_name file_path =
     bind (send e (Get_contents repo_name file_path)) (\<lambda>r. lift (file_of_response e r))"

fun check_required_loop :: "env \<Rightarrow> json \<Rightarrow> string list \<Rightarrow> bool io" where
  "check_required_loop e repo_name [] = ret True"
| "check_required_loop e repo_name (file_path # rest) =
     bind (get_file_content_from_repo e repo_name (JStr file_path)) (\<lambda>(content, _).
       if content = '''' then ret False
       else check_required_loop e repo_name rest)"

definition check_repo_has_required_files :: "env \<Rightarrow> json \<Rightarrow> bool io" where
  "check_repo_has_required_files e repo_name =
     check_required_loop e repo_name [''index.html'', ''README.md'']"

section \<open>Writing files\<close>

text \<open>
  A generated file is a dict with the keys \<open>name\<close> and \<open>content\<close> always set and the
  keys \<open>action\<close> and \<open>sha\<close> set or not; \<open>"sha" not in file\<close> is \<open>f_sha file = None\<close>,
  \<open>file.get("sha")\<close> is \<open>opt_get (f_sha file)\<close>.
\<close>

record file_entry =
  f_name :: json
  f_content :: json
  f_action :: "json option"
  f_sha :: "json option"

definition opt_get :: "json option \<Rightarrow> json" where
  "opt_get v = (case v of None \<Rightarrow> JNull | Some x \<Rightarrow> x)"

text \<open>The log lines print \<open>sha[:7] if sha else 'None'\<close>, which raises on a number.\<close>

definition log_sha_prefix :: "json \<Rightarrow> unit io" where
  "log_sha_prefix v = (if truthy v \<and> \<not> sliceable v then raise TypeError else ret ())"

text \<open>Lines 105 to 114: the action and the token the write will use.\<close>

definition resolve_action :: "env \<Rightarrow> json \<Rightarrow> json \<Rightarrow> json \<Rightarrow> json \<Rightarrow> (json \<times> json) io" where
  "resolve_action e repo_name file_name file_action file_sha =
     (if file_action = JStr ''update'' \<and> \<not> truthy file_sha then
        bind (get_file_content_from_repo e repo_name file_name) (\<lambda>(current_content, current_sha).
          if truthy current_sha then
            bind (log_sha_prefix current_sha) (\<lambda>_. ret (file_action, current_sha))
          else ret (JStr ''create'', file_sha))
      else ret (file_action, file_sha))"

definition encode_content :: "env \<Rightarrow> json \<Rightarrow> error + string" where
  "encode_content e file_content =
     (case file_content of JStr s \<Rightarrow> Inr (b64encode e s) | _ \<Rightarrow> Inl AttributeError)"

definition make_payload :: "json \<Rightarrow> json \<Rightarrow> json \<Rightarrow> json \<Rightarrow> string \<Rightarrow> put_payload" where
  "make_payload file_name round file_action file_sha payload_text =
     \<lparr>message_verb = (if file_action = JStr ''update'' then Update else Add),
      message_file = file_name,
      message_round = round,
      payload_content = payload_text,
      payload_sha = (if file_action = JStr ''update'' \<and> truthy file_sha then Some file_sha else None)\<rparr>"

text \<open>\<open>response.json().get("content", {}).get("sha")\<close> on the answer to a write.\<close>

definition created_sha :: "json option \<Rightarrow> error + json" where
  "created_sha body =
     (case response_json body of
        Inl err \<Rightarrow> Inl err
      | Inr j \<Rightarrow>
         (case as_dict j of
            Inl err \<Rightarrow> Inl err
          | Inr d \<Rightarrow>
             (case as_dict (dict_get_default d ''content'' (JObj [])) of
                Inl err \<Rightarrow> Inl err
              | Inr c \<Rightarrow> Inr (dict_get c ''sha''))))"

text \<open>Lines 138 to 150: the answer to the write; the dict is mutated, so it is returned.\<close>

definition after_put :: "file_entry \<Rightarrow> json \<Rightarrow> json \<Rightarrow> nat \<times> json option \<Rightarrow> file_entry io" where
  "after_put file file_name file_action r =
     (case r of (st, body) \<Rightarrow>
        if st \<noteq> 200 \<and> st \<noteq> 201 then raise (Failed_to_push file_name st)
        else if file_action = JStr ''create'' \<and> f_sha file = None then
          bind (lift (created_sha body)) (\<lambda>new_sha.
            if truthy new_sha then
              bind (log_sha_prefix new_sha) (\<lambda>_. ret (file\<lparr>f_sha := Some new_sha\<rparr>))
            else ret file)
        else ret file)"

text \<open>Line 101: \<open>file.get("action", "create" if round == 1 else "update")\<close>.\<close>

definition action_of :: "json \<Rightarrow> file_entry \<Rightarrow> json" where
  "action_of round file =
     (case f_action file of
        Some a \<Rightarrow> a
      | None \<Rightarrow> JStr (if equals_one round then ''create'' else ''update''))"

text \<open>The body of the loop of \<open>push_files_to_repo\<close>, lines 98 to 150.\<close>

definition push_file :: "env \<Rightarrow> json \<Rightarrow> json \<Rightarrow> file_entry \<Rightarrow> file_entry io" where
  "push_file e repo_name round file =
     (let file_name = f_name file;
          file_content = f_content file;
          file_sha = opt_get (f_sha file);
          file_action = action_of round file
      in bind (log_sha_prefix file_sha) (\<lambda>_.
         bind (resolve_action e repo_name file_name file_action file_sha) (\<lambda>(file_action, file_sha).
         bind (lift (encode_content e file_content)) (\<lambda>payload_text.
         bind (if file_action = JStr ''update'' \<and> truthy file_sha
               then log_sha_prefix file_sha else ret ()) (\<lambda>_.
         bind (send e (Put_contents repo_name file_name
                 (make_payload file_name round file_action file_sha payload_text)))
              (after_put file file_name file_action))))))"

fun push_files_to_repo :: "env \<Rightarrow> json \<Rightarrow> file_entry list \<Rightarrow> json \<Rightarrow> file_entry list io" where
  "push_files_to_repo e repo_name [] round = ret []"
| "push_files_to_repo e repo_name (file # files) round =
     bind (push_file e repo_name round file) (\<lambda>file'.
     bind (push_files_to_repo e repo_name files round) (\<lambda>files'. ret (file' # files')))"

section \<open>Artifact generator adapter\<close>

definition and_then :: "error + 'a \<Rightarrow> ('a \<Rightarrow> error + 'b) \<Rightarrow> error + 'b" where
  "and_then r f = (case r of Inl err \<Rightarrow> Inl err | Inr x \<Rightarrow> f x)"

text \<open>\<open>for x in v\<close>: a list gives its elements, a string its characters, a dict its keys.\<close>

fun py_iter :: "json \<Rightarrow> error + json list" where
  "py_iter (JArr xs) = Inr xs"
| "py_iter (JStr s) = Inr (map (\<lambda>c. JStr [c]) s)"
| "py_iter (JObj d) = Inr (map (\<lambda>kv. JStr (fst kv)) d)"
| "py_iter v = Inl TypeError"

definition or_empty :: "json \<Rightarrow> json" where
  "or_empty v = (if truthy v then v else JArr [])"

text \<open>\<open>v[key]\<close> with a string key, and \<open>v[0]\<close>.\<close>

fun subscript :: "string \<Rightarrow> json \<Rightarrow> error + json" where
  "subscript k (JObj d) = (case map_of d k of None \<Rightarrow> Inl (KeyError k) | Some v \<Rightarrow> Inr v)"
| "subscript k v = Inl TypeError"

fun subscript_0 :: "json \<Rightarrow> error + json" where
  "subscript_0 (JArr []) = Inl IndexError"
| "subscript_0 (JArr (x # xs)) = Inr x"
| "subscript_0 (JStr []) = Inl IndexError"
| "subscript_0 (JStr (c # cs)) = Inr (JStr [c])"
| "subscript_0 (JObj d) = Inl (KeyError ''0'')"
| "subscript_0 v = Inl TypeError"

definition llm_message_content :: "json option \<Rightarrow> error + json" where
  "llm_message_content body =
     and_then (response_json body) (\<lambda>j.
     and_then (subscript ''choices'' j) (\<lambda>choices.
     and_then (subscript_0 choices) (\<lambda>choice.
     and_then (subscript ''message'' choice) (\<lambda>message.
     subscript ''content'' message))))"

definition call_llm :: "env \<Rightarrow> prompt \<Rightarrow> json io" where
  "call_llm e p =
     bind (send e (Post_chat p)) (\<lambda>(st, body).
       if st \<noteq> 200 then raise (LLM_call_failed st)
       else lift (llm_message_content body))"

text \<open>The \<open>try\<close> block over one data URI: any failure keeps the URI itself.\<close>

definition decode_attachment :: "env \<Rightarrow> json \<Rightarrow> string \<Rightarrow> attachment_part" where
  "decode_attachment e name data_uri =
     (case dropWhile (\<lambda>c. c \<noteq> CHR '','') data_uri of
        [] \<Rightarrow> Binary_part name data_uri
      | comma # data \<Rightarrow>
         (case b64decode_utf8 e data of
            None \<Rightarrow> Binary_part name data_uri
          | Some content_text \<Rightarrow> Text_part name content_text))"

fun attachment_loop :: "env \<Rightarrow> json list \<Rightarrow> attachment_part list \<Rightarrow> error + attachment_part list" where
  "attachment_loop e [] attachment_context = Inr attachment_context"
| "attachment_loop e (attachment # rest) attachment_context =
     (case as_dict attachment of
        Inl err \<Rightarrow> Inl err
      | Inr d \<Rightarrow>
         (case dict_get d ''url'' of
            JStr data_uri \<Rightarrow>
              if take 5 data_uri = ''data:''
              then attachment_loop e rest
                     (attachment_context @ [decode_attachment e (dict_get d ''name'') data_uri])
              else attachment_loop e rest attachment_context
          | _ \<Rightarrow> attachment_loop e rest attachment_context))"

definition attachment_context_of :: "env \<Rightarrow> json \<Rightarrow> error + attachment_part list" where
  "attachment_context_of e attachments =
     and_then (py_iter (or_empty attachments)) (\<lambda>items. attachment_loop e items [])"

definition json_loads_value :: "env \<Rightarrow> json \<Rightarrow> error + json" where
  "json_loads_value e v =
     (case v of
        JStr s \<Rightarrow> (case json_loads e s of None \<Rightarrow> Inl JSONDecodeError | Some j \<Rightarrow> Inr j)
      | _ \<Rightarrow> Inl TypeError)"

text \<open>\<open>response_data.get("files", [])\<close>, then the start of the \<open>for\<close> loop over it.\<close>

definition files_of_document :: "json \<Rightarrow> error + json list" where
  "files_of_document response_data =
     and_then (as_dict response_data) (\<lambda>d. py_iter (dict_get_default d ''files'' (JArr [])))"

definition recognised :: "json \<Rightarrow> bool" where
  "recognised name = (name = JStr ''index.html'' \<or> name = JStr ''README.md'')"

text \<open>Line 230: the dict appended for a recognised item.\<close>

definition initial_entry :: "dict \<Rightarrow> file_entry" where
  "initial_entry d =
     \<lparr>f_name = dict_get d ''name'', f_content = dict_get d ''content'',
      f_action = None, f_sha = None\<rparr>"

fun filter_initial :: "json list \<Rightarrow> file_entry list \<Rightarrow> error + file_entry list" where
  "filter_initial [] filtered = Inr filtered"
| "filter_initial (item # rest) filtered =
     (case as_dict item of
        Inl err \<Rightarrow> Inl err
      | Inr d \<Rightarrow>
         if recognised (dict_get d ''name'')
         then filter_initial rest (filtered @ [initial_entry d])
         else filter_initial rest filtered)"

definition write_code_with_llm :: "env \<Rightarrow> json \<Rightarrow> json \<Rightarrow> json \<Rightarrow> file_entry list io" where
  "write_code_with_llm e brief checks attachments =
     bind (lift (attachment_context_of e attachments)) (\<lambda>attachment_context.
     bind (lift (py_iter (or_empty checks))) (\<lambda>check_lines.
     bind (call_llm e (Initial_prompt brief check_lines attachment_context)) (\<lambda>llm_response.
     lift (and_then (json_loads_value e llm_response) (\<lambda>response_data.
           and_then (files_of_document response_data) (\<lambda>files.
           filter_initial files []))))))"

record existing_file =
  ef_name :: json
  ef_content :: string
  ef_sha :: json

text \<open>The dict comprehension of line 308: a later entry of the same name wins.\<close>

fun sha_map_of :: "existing_file list \<Rightarrow> (json \<rightharpoonup> json)" where
  "sha_map_of [] = Map.empty"
| "sha_map_of (ef # rest) =
     (case sha_map_of rest (ef_name ef) of
        None \<Rightarrow> (sha_map_of rest)(ef_name ef \<mapsto> ef_sha ef)
      | Some later \<Rightarrow> sha_map_of rest)"

definition update_entry :: "(json \<rightharpoonup> json) \<Rightarrow> dict \<Rightarrow> file_entry" where
  "update_entry sha_map d =
     (let action = dict_get_default d ''action'' (JStr ''update'')
      in \<lparr>f_name = dict_get d ''name'', f_content = dict_get d ''content'',
          f_action = Some action,
          f_sha = (if action = JStr ''update'' then sha_map (dict_get d ''name'') else None)\<rparr>)"

fun filter_update :: "(json \<rightharpoonup> json) \<Rightarrow> json list \<Rightarrow> file_entry list \<Rightarrow> error + file_entry list" where
  "filter_update sha_map [] filtered = Inr filtered"
| "filter_update sha_map (f # rest) filtered =
     (case as_dict f of
        Inl err \<Rightarrow> Inl err
      | Inr d \<Rightarrow>
         if recognised (dict_get d ''name'')
         then filter_update sha_map rest (filtered @ [update_entry sha_map d])
         else filter_update sha_map rest filtered)"

definition update_code_with_llm ::
  "env \<Rightarrow> json \<Rightarrow> json \<Rightarrow> json \<Rightarrow> json \<Rightarrow> existing_file list \<Rightarrow> file_entry list io" where
  "update_code_with_llm e brief checks attachments repo_name existing_files =
     bind (lift (attachment_context_of e attachments)) (\<lambda>attachment_context.
     bind (lift (py_iter (or_empty checks))) (\<lambda>check_lines.
     bind (call_llm e (Update_prompt brief check_lines attachment_context
             (map (\<lambda>ef. (ef_name ef, JStr (ef_content ef))) existing_files))) (\<lambda>llm_response.
     lift (and_then (json_loads_value e llm_response) (\<lambda>response_data.
           and_then (files_of_document response_data) (\<lambda>files.
           filter_update (sha_map_of existing_files) files []))))))"

section \<open>Notifier\<close>

text \<open>
  The \<open>try\<close> block of one attempt: an exception of \<open>requests.post\<close> is swallowed,
  so the attempt just counts as failed.
\<close>

definition post_attempt :: "env \<Rightarrow> json \<Rightarrow> evaluation_payload \<Rightarrow> bool io" where
  "post_attempt e evaluation_url payload = (\<lambda>tr.
     (case send e (Post_evaluation evaluation_url payload) tr of
        (Inl err, tr') \<Rightarrow> (Inr False, tr')
      | (Inr (st, body), tr') \<Rightarrow> (Inr (st = 200 \<or> st = 201 \<or> st = 202), tr')))"

text \<open>
  \<open>for attempt in range(max_retries)\<close>, from \<open>attempt\<close> on with \<open>remaining\<close>
  iterations to go.
\<close>

fun ping_loop :: "env \<Rightarrow> json \<Rightarrow> evaluation_payload \<Rightarrow> nat \<Rightarrow> nat \<Rightarrow> bool io" where
  "ping_loop e evaluation_url payload attempt 0 = ret False"
| "ping_loop e evaluation_url payload attempt (Suc remaining) =
     bind (post_attempt e evaluation_url payload) (\<lambda>ok.
       if ok then ret True
       else bind (sleep (2 ^ attempt)) (\<lambda>_.
              ping_loop e evaluation_url payload (Suc attempt) remaining))"

definition ping_evaluation_server :: "env \<Rightarrow> json \<Rightarrow> evaluation_payload \<Rightarrow> int \<Rightarrow> bool io" where
  "ping_evaluation_server e evaluation_url payload max_retries =
     ping_loop e evaluation_url payload 0 (nat max_retries)"

section \<open>The two paths\<close>

text \<open>\<open>data[key]\<close> on the task body.\<close>

definition item :: "dict \<Rightarrow> string \<Rightarrow> error + json" where
  "item d k = (case map_of d k of None \<Rightarrow> Inl (KeyError k) | Some v \<Rightarrow> Inr v)"

text \<open>
  The dict literal of lines 349 to 357 (and 403 to 411); its entries are evaluated in
  order, so the first missing key is the one reported. The two URLs are f-strings over
  the repository name.
\<close>

definition evaluation_payload_of :: "dict \<Rightarrow> json \<Rightarrow> json \<Rightarrow> error + evaluation_payload" where
  "evaluation_payload_of data repo_name commit_sha =
     and_then (item data ''email'') (\<lambda>email.
     and_then (item data ''task'') (\<lambda>task.
     and_then (item data ''round'') (\<lambda>round.
     and_then (item data ''nonce'') (\<lambda>nonce.
     Inr \<lparr>ep_email = email, ep_task = task, ep_round = round, ep_nonce = nonce,
          ep_repo_url = repo_name, ep_commit_sha = commit_sha, ep_pages_url = repo_name\<rparr>))))"

definition notify_and_return :: "env \<Rightarrow> dict \<Rightarrow> json \<Rightarrow> json \<Rightarrow> json io" where
  "notify_and_return e data repo_name commit_sha =
     bind (lift (evaluation_payload_of data repo_name commit_sha)) (\<lambda>evaluation_payload.
     bind (lift (item data ''evaluation_url'')) (\<lambda>evaluation_url.
     bind (ping_evaluation_server e evaluation_url evaluation_payload 3) (\<lambda>_.
     ret (ep_repo_url evaluation_payload))))"

definition build_initial_application :: "env \<Rightarrow> dict \<Rightarrow> json io" where
  "build_initial_application e data =
     bind (lift (item data ''task'')) (\<lambda>repo_name.
     bind (lift (item data ''brief'')) (\<lambda>brief.
     bind (write_code_with_llm e brief (dict_get_default data ''checks'' (JArr []))
             (dict_get_default data ''attachments'' (JArr []))) (\<lambda>files.
     bind (create_github_repo e repo_name) (\<lambda>_.
     bind (push_files_to_repo e repo_name files (JNum 1)) (\<lambda>_.
     bind (enable_github_pages e repo_name) (\<lambda>_.
     bind (get_sha_of_latest_commit e repo_name) (\<lambda>commit_sha.
     notify_and_return e data repo_name commit_sha)))))))"

text \<open>Lines 373 to 379: only a file whose content is not empty is kept.\<close>

fun fetch_existing :: "env \<Rightarrow> json \<Rightarrow> string list \<Rightarrow> existing_file list \<Rightarrow> existing_file list io" where
  "fetch_existing e repo_name [] existing_files = ret existing_files"
| "fetch_existing e repo_name (file_name # rest) existing_files =
     bind (get_file_content_from_repo e repo_name (JStr file_name)) (\<lambda>(content, sha).
       if content \<noteq> [] then
         bind (log_sha_prefix sha) (\<lambda>_.
           fetch_existing e repo_name rest
             (existing_files @ [\<lparr>ef_name = JStr file_name, ef_content = content, ef_sha = sha\<rparr>]))
       else fetch_existing e repo_name rest existing_files)"

text \<open>Lines 386 to 397, for one file.\<close>

definition ensure_sha :: "existing_file list \<Rightarrow> file_entry \<Rightarrow> file_entry" where
  "ensure_sha existing_files file =
     (let file1 = (if f_action file = None then file\<lparr>f_action := Some (JStr ''update'')\<rparr> else file)
      in if f_action file1 = Some (JStr ''update'') \<and> f_sha file1 = None then
           (case find (\<lambda>ef. ef_name ef = f_name file1) existing_files of
              None \<Rightarrow> file1
            | Some existing \<Rightarrow> file1\<lparr>f_sha := Some (ef_sha existing)\<rparr>)
         else file1)"

definition revise_existing_application :: "env \<Rightarrow> dict \<Rightarrow> json io" where
  "revise_existing_application e data =
     bind (lift (item data ''task'')) (\<lambda>repo_name.
     bind (fetch_existing e repo_name [''index.html'', ''README.md''] []) (\<lambda>existing_files.
     bind (lift (item data ''brief'')) (\<lambda>brief.
     bind (update_code_with_llm e brief (dict_get_default data ''checks'' (JArr []))
             (dict_get_default data ''attachments'' (JArr [])) repo_name existing_files)
          (\<lambda>updated_files.
     bind (push_files_to_repo e repo_name (map (ensure_sha existing_files) updated_files)
             (dict_get_default data ''round'' (JNum 2))) (\<lambda>_.
     bind (get_sha_of_latest_commit e repo_name) (\<lambda>commit_sha.
     notify_and_return e data repo_name commit_sha))))))"

section \<open>Round controller and intake\<close>

datatype path = Revision | Creation

text \<open>Lines 424 to 444 of \<open>process_task_background\<close>: the two live queries and the test.\<close>

definition select_path :: "env \<Rightarrow> dict \<Rightarrow> path io" where
  "select_path e data =
     (let repo_name = dict_get data ''task''
      in bind (repository_exists e repo_name) (\<lambda>repo_exists.
         bind (if repo_exists then check_repo_has_required_files e repo_name else ret False)
              (\<lambda>has_required_files.
         ret (if repo_exists \<and> has_required_files then Revision else Creation))))"

text \<open>
  The function returns nothing and raises nothing; what it leaves is the last line of its
  log, and the trace.
\<close>

datatype run_log =
    Update_completed json
  | Creation_completed json
  | Processing_failed error

definition process_task_background :: "env \<Rightarrow> dict \<Rightarrow> trace \<Rightarrow> run_log \<times> trace" where
  "process_task_background e data tr =
     (case select_path e data tr of
        (Inl err, tr1) \<Rightarrow> (Processing_failed err, tr1)
      | (Inr Revision, tr1) \<Rightarrow>
          (case revise_existing_application e data tr1 of
             (Inl err, tr2) \<Rightarrow> (Processing_failed err, tr2)
           | (Inr result, tr2) \<Rightarrow> (Update_completed result, tr2))
      | (Inr Creation, tr1) \<Rightarrow>
          (case build_initial_application e data tr1 of
             (Inl err, tr2) \<Rightarrow> (Processing_failed err, tr2)
           | (Inr result, tr2) \<Rightarrow> (Creation_completed result, tr2)))"

datatype detail = Invalid_secret | Missing_required_field string

datatype http_response =
    HTTP_exception nat detail
  | Processing json json

text \<open>
  \<open>handle_task\<close> returns its answer and the tasks it has handed to
  \<open>background_tasks.add_task\<close>; it does not run them. Nothing in its \<open>try\<close> block can
  raise but the two \<open>HTTPException\<close>s, so the answer 500 has no branch here.
\<close>

definition handle_task :: "string option \<Rightarrow> dict \<Rightarrow> http_response \<times> dict list" where
  "handle_task SECRET data =
     (if \<not> validate_secret SECRET (dict_get_default data ''secret'' (JStr []))
      then (HTTP_exception 401 Invalid_secret, [])
      else (case find (\<lambda>field. \<not> has_key data field)
                   [''email'', ''task'', ''brief'', ''evaluation_url''] of
              Some field \<Rightarrow> (HTTP_exception 400 (Missing_required_field field), [])
            | None \<Rightarrow> (Processing (dict_get data ''task'') (dict_get data ''round''), [data])))"

section \<open>Notions used to state the properties\<close>

text \<open>The configured secret as a Python value: an unset variable reads as \<open>None\<close>.\<close>

definition configured :: "string option \<Rightarrow> json" where
  "configured SECRET = (case SECRET of None \<Rightarrow> JNull | Some s \<Rightarrow> JStr s)"

text \<open>A task body with the secret and the four required fields, without round and nonce.\<close>

definition task_ok :: dict where
  "task_ok = [(''secret'', JStr ''s3''), (''email'', JStr ''a@b.c''), (''task'', JStr ''demo''),
              (''brief'', JStr ''make a page''), (''evaluation_url'', JStr ''http://eval'')]"

text \<open>The outcomes of an attempt that the notifier takes as delivered.\<close>

definition accepted :: "http_result \<Rightarrow> bool" where
  "accepted r = (case r of Conn_err \<Rightarrow> False | Response st body \<Rightarrow> st = 200 \<or> st = 201 \<or> st = 202)"

text \<open>
  What a sequence of attempts with the answers \<open>rs\<close> leaves in the trace, the first of them
  being attempt number \<open>i\<close>: every failed attempt is followed by a wait of \<open>2 ^ i\<close>.
\<close>

fun attempts_trace :: "json \<Rightarrow> evaluation_payload \<Rightarrow> nat \<Rightarrow> http_result list \<Rightarrow> trace" where
  "attempts_trace url payload i [] = []"
| "attempts_trace url payload i (r # rs) =
     Http (Post_evaluation url payload) r
       # (if accepted r then [] else [Sleep (2 ^ i)]) @ attempts_trace url payload (Suc i) rs"

definition delivered :: "http_result list \<Rightarrow> bool" where
  "delivered rs = (rs \<noteq> [] \<and> accepted (last rs))"

text \<open>Two evaluation servers: one that never accepts, one that accepts the third attempt.\<close>

definition env_down :: env where
  "env_down = \<lparr>http = (\<lambda>tr rq. if length tr < 3 then Conn_err else Response 500 None),
               json_loads = (\<lambda>s. None), b64decode_utf8 = (\<lambda>s. None), b64encode = (\<lambda>s. s)\<rparr>"

definition env_third :: env where
  "env_third = \<lparr>http = (\<lambda>tr rq. if length tr < 4 then Response 503 None else Response 202 None),
               json_loads = (\<lambda>s. None), b64decode_utf8 = (\<lambda>s. None), b64encode = (\<lambda>s. s)\<rparr>"

definition report :: evaluation_payload where
  "report = \<lparr>ep_email = JStr ''a@b.c'', ep_task = JStr ''demo'', ep_round = JNum 1,
             ep_nonce = JStr ''n'', ep_repo_url = JStr ''demo'', ep_commit_sha = JStr ''c0ffee'',
             ep_pages_url = JStr ''demo''\<rparr>"

text \<open>
  Every computation leaves the trace it was given in place and appends events; \<open>appends P m\<close>
  says that the events \<open>m\<close> appends all satisfy \<open>P\<close>.
\<close>

definition appends :: "(event \<Rightarrow> bool) \<Rightarrow> 'a io \<Rightarrow> bool" where
  "appends P m = (\<forall>tr. \<exists>new. snd (m tr) = tr @ new \<and> list_all P new)"

text \<open>A remote that rejects the credentials, and one that cannot be reached.\<close>

definition env_unauthorized :: env where
  "env_unauthorized =
     \<lparr>http = (\<lambda>tr rq. Response 401 (Some (JObj [(''message'', JStr ''Bad credentials'')]))),
      json_loads = (\<lambda>s. None), b64decode_utf8 = (\<lambda>s. Some s), b64encode = (\<lambda>s. s)\<rparr>"

definition env_offline :: env where
  "env_offline = \<lparr>http = (\<lambda>tr rq. Conn_err),
      json_loads = (\<lambda>s. None), b64decode_utf8 = (\<lambda>s. Some s), b64encode = (\<lambda>s. s)\<rparr>"

text \<open>
  A repository in which the file to update has been deleted: reads answer 404, writes are
  accepted.
\<close>

definition env_deleted :: env where
  "env_deleted =
     \<lparr>http = (\<lambda>tr rq. case rq of
                Put_contents repo p pl \<Rightarrow>
                  Response 201 (Some (JObj [(''content'', JObj [(''sha'', JStr ''f00dfeed'')])]))
              | _ \<Rightarrow> Response 404 None),
      json_loads = (\<lambda>s. None), b64decode_utf8 = (\<lambda>s. Some s), b64encode = (\<lambda>s. s)\<rparr>"

definition stale_update :: file_entry where
  "stale_update = \<lparr>f_name = JStr ''index.html'', f_content = JStr ''<h1>hi</h1>'',
                    f_action = Some (JStr ''update''), f_sha = None\<rparr>"

text \<open>
  What the classification asks of a read: it returned, with content that is not empty;
  and its opposite, a read that returned with no content.
\<close>

definition readable :: "error + string \<times> json \<Rightarrow> bool" where
  "readable r = (case r of Inl err \<Rightarrow> False | Inr (content, sha) \<Rightarrow> content \<noteq> [])"

definition unreadable :: "error + string \<times> json \<Rightarrow> bool" where
  "unreadable r = (case r of Inl err \<Rightarrow> False | Inr (content, sha) \<Rightarrow> content = [])"

text \<open>The body of a chat completion whose message is \<open>s\<close>.\<close>

definition chat_body :: "string \<Rightarrow> json" where
  "chat_body s = JObj [(''choices'', JArr [JObj [(''message'', JObj [(''content'', JStr s)])]])]"

text \<open>
  The generated document of the examples: the two recognised files and one more, the
  recognised ones marked as updates.
\<close>

definition generated :: json where
  "generated = JObj [(''files'', JArr
     [JObj [(''name'', JStr ''index.html''), (''content'', JStr ''<h1>hi</h1>''),
            (''action'', JStr ''update'')],
      JObj [(''name'', JStr ''notes.txt''), (''content'', JStr ''todo'')],
      JObj [(''name'', JStr ''README.md''), (''content'', JStr ''# demo''),
            (''action'', JStr ''update'')]])]"

text \<open>A remote where the repository exists with both files, each with its own token.\<close>

definition env_complete :: env where
  "env_complete =
     \<lparr>http = (\<lambda>tr rq. case rq of
          Get_repo repo \<Rightarrow> Response 200 (Some (JObj []))
        | Get_contents repo p \<Rightarrow>
            Response 200 (Some (JObj [(''content'', JStr ''b2xk''),
              (''sha'', if p = JStr ''index.html'' then JStr ''1111111'' else JStr ''2222222'')]))
        | Post_user_repos repo \<Rightarrow> Response 422 None
        | Post_pages repo \<Rightarrow> Response 409 None
        | Get_commit repo branch \<Rightarrow> Response 200 (Some (JObj [(''sha'', JStr ''c0ffee'')]))
        | Put_contents repo p pl \<Rightarrow>
            Response 200 (Some (JObj [(''content'', JObj [(''sha'', JStr ''f00dfeed'')])]))
        | Post_chat p \<Rightarrow> Response 200 (Some (chat_body ''DOC''))
        | Post_evaluation url pl \<Rightarrow> Response 200 None),
      json_loads = (\<lambda>s. if s = ''DOC'' then Some generated else None),
      b64decode_utf8 = (\<lambda>s. Some s), b64encode = (\<lambda>s. s)\<rparr>"

text \<open>A remote where the repository does not exist yet and every step succeeds.\<close>

definition env_absent :: env where
  "env_absent =
     \<lparr>http = (\<lambda>tr rq. case rq of
          Get_repo repo \<Rightarrow> Response 404 None
        | Get_contents repo p \<Rightarrow> Response 404 None
        | Post_user_repos repo \<Rightarrow> Response 201 (Some (JObj []))
        | Post_pages repo \<Rightarrow> Response 201 None
        | Get_commit repo branch \<Rightarrow> Response 200 (Some (JObj [(''sha'', JStr ''c0ffee'')]))
        | Put_contents repo p pl \<Rightarrow>
            Response 201 (Some (JObj [(''content'', JObj [(''sha'', JStr ''f00dfeed'')])]))
        | Post_chat p \<Rightarrow> Response 200 (Some (chat_body ''DOC''))
        | Post_evaluation url pl \<Rightarrow> Response 200 None),
      json_loads = (\<lambda>s. if s = ''DOC'' then Some generated else None),
      b64decode_utf8 = (\<lambda>s. Some s), b64encode = (\<lambda>s. s)\<rparr>"

text \<open>A task body with every field.\<close>

definition task_full :: dict where
  "task_full = (''round'', JNum 2) # (''nonce'', JStr ''n-1'') # task_ok"

text \<open>
  The remote of \<open>env_complete\<close>, where index.html is emptied by someone else once the run
  has classified the repository: from the fourth request on it reads as an existing file
  with no content.
\<close>

definition env_emptied :: env where
  "env_emptied =
     env_complete\<lparr>http := (\<lambda>tr rq. case rq of
        Get_contents repo p \<Rightarrow>
          if p = JStr ''index.html'' \<and> 3 \<le> length tr
          then Response 200 (Some (JObj [(''content'', JStr []), (''sha'', JStr ''1111111'')]))
          else http env_complete tr rq
      | _ \<Rightarrow> http env_complete tr rq)\<rparr>"

text \<open>The trace of a run once it has classified that repository.\<close>

definition trace_classified :: trace where
  "trace_classified = snd (select_path env_complete task_full [])"

text \<open>
  The requests that change the remote repository, and the notification of the evaluation
  server.
\<close>

fun is_write :: "event \<Rightarrow> bool" where
  "is_write (Http (Post_user_repos repo) r) = True"
| "is_write (Http (Post_pages repo) r) = True"
| "is_write (Http (Put_contents repo p pl) r) = True"
| "is_write ev = False"

fun is_notification :: "event \<Rightarrow> bool" where
  "is_notification (Http (Post_evaluation url pl) r) = True"
| "is_notification ev = False"

text \<open>A computation that raises from every trace.\<close>

definition fails :: "'a io \<Rightarrow> bool" where
  "fails m = (\<forall>tr. \<exists>err. fst (m tr) = Inl err)"

text \<open>
  The body of the \<open>try\<close> block of \<open>process_task_background\<close> as one computation, for
  the lemmas about what it appends.
\<close>

definition workflow :: "env \<Rightarrow> dict \<Rightarrow> run_log io" where
  "workflow e data =
     bind (select_path e data) (\<lambda>chosen.
       case chosen of
         Revision \<Rightarrow> bind (revise_existing_application e data) (\<lambda>r. ret (Update_completed r))
       | Creation \<Rightarrow> bind (build_initial_application e data) (\<lambda>r. ret (Creation_completed r)))"

text \<open>
  The token a read returned, and the token of the latest read of a file in a trace: the
  token that \<open>get_file_content_from_repo\<close> handed to the program for the last
  \<open>Get_contents\<close> of that repository and path.
\<close>

definition is_read_of :: "json \<Rightarrow> json \<Rightarrow> event \<Rightarrow> bool" where
  "is_read_of repo p ev =
     (case ev of Http (Get_contents repo' p') r \<Rightarrow> repo' = repo \<and> p' = p | _ \<Rightarrow> False)"

definition token_of :: "env \<Rightarrow> event \<Rightarrow> json option" where
  "token_of e ev =
     (case ev of
        Http rq (Response st body) \<Rightarrow>
          (case file_of_response e (st, body) of Inl err \<Rightarrow> None | Inr (content, sha) \<Rightarrow> Some sha)
      | _ \<Rightarrow> None)"

definition latest_read :: "env \<Rightarrow> json \<Rightarrow> json \<Rightarrow> trace \<Rightarrow> json option" where
  "latest_read e repo p tr =
     (case filter (is_read_of repo p) (rev tr) of [] \<Rightarrow> None | ev # earlier \<Rightarrow> token_of e ev)"

text \<open>
  A write is in order after the trace \<open>past\<close> when it either carries no token and says Add,
  or says Update and carries a token that is not empty and is the one the latest read of
  the same file returned.
\<close>

definition put_ok :: "env \<Rightarrow> trace \<Rightarrow> event \<Rightarrow> bool" where
  "put_ok e past ev =
     (case ev of
        Http (Put_contents repo p pl) r \<Rightarrow>
          (case payload_sha pl of
             None \<Rightarrow> message_verb pl = Add
           | Some s \<Rightarrow> message_verb pl = Update \<and> truthy s \<and> latest_read e repo p past = Some s)
      | _ \<Rightarrow> True)"

fun writes_ok :: "env \<Rightarrow> trace \<Rightarrow> trace \<Rightarrow> bool" where
  "writes_ok e past [] = True"
| "writes_ok e past (ev # rest) = (put_ok e past ev \<and> writes_ok e (past @ [ev]) rest)"

definition is_put :: "event \<Rightarrow> bool" where
  "is_put ev = (case ev of Http (Put_contents repo p pl) r \<Rightarrow> True | _ \<Rightarrow> False)"

text \<open>
  A triple for computations: from a trace that satisfies \<open>pre\<close>, a returned value and the
  trace then satisfy \<open>post\<close>, and the trace at a raise satisfies \<open>exc\<close>.
\<close>

definition triple ::
  "(trace \<Rightarrow> bool) \<Rightarrow> 'a io \<Rightarrow> ('a \<Rightarrow> trace \<Rightarrow> bool) \<Rightarrow> (trace \<Rightarrow> bool) \<Rightarrow> bool" where
  "triple pre m post exc =
     (\<forall>tr. pre tr \<longrightarrow> (case m tr of (Inl err, tr') \<Rightarrow> exc tr' | (Inr x, tr') \<Rightarrow> post x tr'))"

definition yields :: "('a \<Rightarrow> bool) \<Rightarrow> 'a io \<Rightarrow> bool" where
  "yields Q m = (\<forall>tr x tr'. m tr = (Inr x, tr') \<longrightarrow> Q x)"

text \<open>
  What the write loop needs of the files it is given, for its writes to be in order: a
  token that a file to update carries is the one of the latest read of that file, and two
  entries to update of the same name carry the same token.
\<close>

definition tokens_current :: "env \<Rightarrow> json \<Rightarrow> json \<Rightarrow> file_entry list \<Rightarrow> trace \<Rightarrow> bool" where
  "tokens_current e repo round files tr =
     (\<forall>f \<in> set files. action_of round f = JStr ''update'' \<longrightarrow> truthy (opt_get (f_sha f)) \<longrightarrow>
                       latest_read e repo (f_name f) tr = Some (opt_get (f_sha f)))"

definition tokens_agree :: "json \<Rightarrow> file_entry list \<Rightarrow> bool" where
  "tokens_agree round files =
     (\<forall>f \<in> set files. \<forall>g \<in> set files. f_name f = f_name g \<longrightarrow>
        action_of round f = JStr ''update'' \<longrightarrow> action_of round g = JStr ''update'' \<longrightarrow>
        opt_get (f_sha f) = opt_get (f_sha g))"

text \<open>The existing files carry the tokens of the latest reads.\<close>

definition existing_current :: "env \<Rightarrow> json \<Rightarrow> existing_file list \<Rightarrow> trace \<Rightarrow> bool" where
  "existing_current e repo existing tr =
     (\<forall>ef \<in> set existing. latest_read e repo (ef_name ef) tr = Some (ef_sha ef))"

text \<open>The entries that the update adapter builds from the tokens of the existing files.\<close>

definition from_context :: "existing_file list \<Rightarrow> file_entry list \<Rightarrow> bool" where
  "from_context existing files =
     (\<forall>f \<in> set files. \<exists>d. f = update_entry (sha_map_of existing) d)"

definition is_chat :: "event \<Rightarrow> bool" where
  "is_chat ev = (case ev of Http (Post_chat p) r \<Rightarrow> True | _ \<Rightarrow> False)"

text \<open>The two updates that the example run on the complete repository sends.\<close>

definition put_index :: event where
  "put_index =
     Http (Put_contents (JStr ''demo'') (JStr ''index.html'')
             \<lparr>message_verb = Update, message_file = JStr ''index.html'',
              message_round = JNum 2, payload_content = ''<h1>hi</h1>'',
              payload_sha = Some (JStr ''1111111'')\<rparr>)
       (Response 200 (Some (JObj [(''content'', JObj [(''sha'', JStr ''f00dfeed'')])])))"

definition put_readme :: event where
  "put_readme =
     Http (Put_contents (JStr ''demo'') (JStr ''README.md'')
             \<lparr>message_verb = Update, message_file = JStr ''README.md'',
              message_round = JNum 2, payload_content = ''# demo'',
              payload_sha = Some (JStr ''2222222'')\<rparr>)
       (Response 200 (Some (JObj [(''content'', JObj [(''sha'', JStr ''f00dfeed'')])])))"





text \<open>
  The entries of the generated document, as both adapters get them from the answer of the
  generation service: the call must succeed, its message must be JSON text of an object,
  the \<open>files\<close> of the object must be iterable and every item a dict. A document
  without \<open>files\<close> has no entries.
\<close>

fun dicts_of :: "json list \<Rightarrow> error + dict list" where
  "dicts_of [] = Inr []"
| "dicts_of (JObj d # rest) = and_then (dicts_of rest) (\<lambda>ds. Inr (d # ds))"
| "dicts_of (v # rest) = Inl AttributeError"

definition document_entries :: "env \<Rightarrow> http_result \<Rightarrow> error + dict list" where
  "document_entries e r =
     (case r of
        Conn_err \<Rightarrow> Inl ConnectionError
      | Response st body \<Rightarrow>
          if st \<noteq> 200 then Inl (LLM_call_failed st)
          else and_then (llm_message_content body) (\<lambda>content.
               and_then (json_loads_value e content) (\<lambda>response_data.
               and_then (files_of_document response_data) dicts_of)))"

definition good_chat :: "env \<Rightarrow> event \<Rightarrow> bool" where
  "good_chat e ev =
     (case ev of
        Http (Post_chat p) r \<Rightarrow> (case document_entries e r of Inl err \<Rightarrow> False | Inr ds \<Rightarrow> True)
      | _ \<Rightarrow> True)"

definition is_query :: "event \<Rightarrow> bool" where
  "is_query ev =
     (case ev of Http (Get_repo repo) r \<Rightarrow> True | Http (Get_contents repo p) r \<Rightarrow> True
      | _ \<Rightarrow> False)"

definition quiet :: "event \<Rightarrow> bool" where
  "quiet ev = (\<not> is_write ev \<and> \<not> is_notification ev)"

text \<open>
  Two generation services: one whose document has index.html only, one whose document is
  an empty object; and one whose message is not JSON.
\<close>

definition env_partial :: env where
  "env_partial = env_absent\<lparr>json_loads := (\<lambda>s. Some (JObj [(''files'', JArr
     [JObj [(''name'', JStr ''index.html''), (''content'', JStr ''<h1>hi</h1>'')]])]))\<rparr>"

definition env_no_files :: env where
  "env_no_files = env_absent\<lparr>json_loads := (\<lambda>s. Some (JObj []))\<rparr>"

definition env_garbled :: env where
  "env_garbled = env_absent\<lparr>json_loads := (\<lambda>s. None)\<rparr>"

definition only_queries :: "trace \<Rightarrow> bool" where
  "only_queries tr = list_all is_query tr"

definition good_chats :: "env \<Rightarrow> trace \<Rightarrow> bool" where
  "good_chats e tr = list_all (good_chat e) tr"

definition quiet_if_bad :: "env \<Rightarrow> trace \<Rightarrow> bool" where
  "quiet_if_bad e tr = (good_chats e tr \<or> list_all quiet tr)"

text \<open>
  A remote that answers 200 to every read, with a body that depends on the path: not JSON,
  the listing of a directory, content that is not text, content that is not a string, a
  file with no content, and a file with content.
\<close>

definition env_bodies :: env where
  "env_bodies =
     \<lparr>http = (\<lambda>tr rq. case rq of
          Get_contents repo p \<Rightarrow>
            if p = JStr ''plain.txt'' then Response 200 None
            else if p = JStr ''docs'' then Response 200 (Some (JArr []))
            else if p = JStr ''logo.png'' then
              Response 200 (Some (JObj [(''content'', JStr ''iVBOR''), (''sha'', JStr ''3333333'')]))
            else if p = JStr ''count'' then
              Response 200 (Some (JObj [(''content'', JNum 7), (''sha'', JStr ''4444444'')]))
            else if p = JStr ''empty.txt'' then
              Response 200 (Some (JObj [(''content'', JStr []), (''sha'', JStr ''5555555'')]))
            else Response 200 (Some (JObj [(''content'', JStr ''b2xk''), (''sha'', JStr ''1111111'')]))
        | _ \<Rightarrow> Response 404 None),
      json_loads = (\<lambda>s. None),
      b64decode_utf8 = (\<lambda>s. if s = ''iVBOR'' then None else Some s),
      b64encode = (\<lambda>s. s)\<rparr>"

section \<open>What a computation appends to the trace\<close>

lemma appendsD:
  "appends P m \<Longrightarrow> \<exists>new. snd (m tr) = tr @ new \<and> list_all P new"
  by (simp add: appends_def)

lemma appends_ret: "appends P (ret x)"
  by (simp add: appends_def ret_def)

lemma appends_raise: "appends P (raise err)"
  by (simp add: appends_def raise_def)

lemma appends_lift: "appends P (lift r)"
  by (simp add: appends_def lift_def)

lemma appends_send: "(\<And>r. P (Http rq r)) \<Longrightarrow> appends P (send e rq)"
  by (auto simp: appends_def send_def split: http_result.splits)

lemma appends_sleep: "P (Sleep n) \<Longrightarrow> appends P (sleep n)"
  by (simp add: appends_def sleep_def)

lemma appends_bind:
  assumes m: "appends P m" and f: "\<And>x. appends P (f x)"
  shows "appends P (bind m f)"
  unfolding appends_def
proof
  fix tr
  from appendsD [OF m, of tr] obtain new1 where
    m1: "snd (m tr) = tr @ new1" and p1: "list_all P new1" by blast
  show "\<exists>new. snd (bind m f tr) = tr @ new \<and> list_all P new"
  proof (cases "m tr")
    case (Pair r tr1)
    with m1 have tr1: "tr1 = tr @ new1" by simp
    show ?thesis
    proof (cases r)
      case (Inl err)
      with Pair tr1 p1 show ?thesis by (simp add: bind_def)
    next
      case (Inr x)
      from appendsD [OF f, of x tr1] obtain new2 where
        "snd (f x tr1) = tr1 @ new2" and "list_all P new2" by blast
      with Pair Inr tr1 p1 show ?thesis by (simp add: bind_def)
    qed
  qed
qed

lemma appends_if:
  "appends P m1 \<Longrightarrow> appends P m2 \<Longrightarrow> appends P (if b then m1 else m2)"
  by simp

lemma get_file_content_from_repo_eq:
  "get_file_content_from_repo e repo p tr =
     (case http e tr (Get_contents repo p) of
        Conn_err \<Rightarrow> (Inl ConnectionError, tr @ [Http (Get_contents repo p) Conn_err])
      | Response st body \<Rightarrow>
          (file_of_response e (st, body), tr @ [Http (Get_contents repo p) (Response st body)]))"
  by (simp add: get_file_content_from_repo_def bind_def send_def lift_def
      split: http_result.splits)

lemma appends_get_file:
  "(\<And>r. P (Http (Get_contents repo p) r)) \<Longrightarrow> appends P (get_file_content_from_repo e repo p)"
  unfolding get_file_content_from_repo_def
  by (intro appends_bind appends_send appends_lift)

lemma appends_case_prod:
  "(\<And>a b. appends P (f a b)) \<Longrightarrow> appends P (case x of (a, b) \<Rightarrow> f a b)"
  by (cases x) simp

lemma appends_mono:
  assumes "appends P m" and "\<And>ev. P ev \<Longrightarrow> Q ev"
  shows "appends Q m"
  unfolding appends_def
proof
  fix tr
  from appendsD [OF assms(1), of tr] obtain new where
    "snd (m tr) = tr @ new" and "list_all P new" by blast
  moreover from this assms(2) have "list_all Q new"
    by (simp add: list_all_iff)
  ultimately show "\<exists>new. snd (m tr) = tr @ new \<and> list_all Q new" by blast
qed

lemma snd_send: "snd (send e rq tr) = tr @ [Http rq (http e tr rq)]"
  by (simp add: send_def split: http_result.splits)

lemma snd_log_sha_prefix: "snd (log_sha_prefix v tr) = tr"
  by (simp add: log_sha_prefix_def raise_def ret_def)

lemma snd_lift: "snd (lift r tr) = tr"
  by (simp add: lift_def)

lemma snd_after_put: "snd (after_put file file_name file_action r tr) = tr"
  by (cases r)
     (simp add: after_put_def raise_def ret_def bind_def lift_def log_sha_prefix_def
        split: sum.splits)

lemma snd_send_after_put:
  "snd (bind (send e rq) (after_put file file_name file_action) tr)
     = tr @ [Http rq (http e tr rq)]"
  by (cases "http e tr rq") (simp_all add: bind_def send_def snd_after_put)

section \<open>One step of the write loop\<close>

lemma push_file_direct:
  assumes "\<not> (action_of round file = JStr ''update'' \<and> \<not> truthy (opt_get (f_sha file)))"
  shows "push_file e repo round file tr =
           (if truthy (opt_get (f_sha file)) \<and> \<not> sliceable (opt_get (f_sha file))
            then (Inl TypeError, tr)
            else (case encode_content e (f_content file) of
                    Inl err \<Rightarrow> (Inl err, tr)
                  | Inr payload_text \<Rightarrow>
                      bind (send e (Put_contents repo (f_name file)
                              (make_payload (f_name file) round (action_of round file)
                                 (opt_get (f_sha file)) payload_text)))
                           (after_put file (f_name file) (action_of round file)) tr))"
proof (cases "action_of round file = JStr ''update''")
  case True
  with assms have "truthy (opt_get (f_sha file))" by simp
  then show ?thesis
    unfolding push_file_def Let_def True
    by (auto simp: bind_def log_sha_prefix_def raise_def ret_def
        resolve_action_def lift_def split: sum.splits)
next
  case False
  then show ?thesis
    by (auto simp: push_file_def Let_def bind_def log_sha_prefix_def raise_def ret_def
        resolve_action_def lift_def split: sum.splits)
qed

lemma push_file_reread:
  assumes "action_of round file = JStr ''update''" and "\<not> truthy (opt_get (f_sha file))"
  shows "push_file e repo round file tr =
           (case get_file_content_from_repo e repo (f_name file) tr of
              (Inl err, tr1) \<Rightarrow> (Inl err, tr1)
            | (Inr (current_content, current_sha), tr1) \<Rightarrow>
                if truthy current_sha \<and> \<not> sliceable current_sha then (Inl TypeError, tr1)
                else (case encode_content e (f_content file) of
                        Inl err \<Rightarrow> (Inl err, tr1)
                      | Inr payload_text \<Rightarrow>
                          if truthy current_sha then
                            bind (send e (Put_contents repo (f_name file)
                                    (make_payload (f_name file) round (JStr ''update'')
                                       current_sha payload_text)))
                                 (after_put file (f_name file) (JStr ''update'')) tr1
                          else
                            bind (send e (Put_contents repo (f_name file)
                                    (make_payload (f_name file) round (JStr ''create'')
                                       (opt_get (f_sha file)) payload_text)))
                                 (after_put file (f_name file) (JStr ''create'')) tr1))"
  using assms(2)
  unfolding push_file_def Let_def assms(1)
  by (auto simp: bind_def log_sha_prefix_def raise_def ret_def
      resolve_action_def lift_def split: sum.splits prod.splits)

lemma snd_bind_extends:
  assumes "\<And>x. appends P (k x)"
  shows "\<exists>rest. snd (bind m k tr) = snd (m tr) @ rest"
proof (cases "m tr")
  case (Pair r tr1)
  show ?thesis
  proof (cases r)
    case (Inl err)
    with Pair show ?thesis by (simp add: bind_def)
  next
    case (Inr x)
    from appendsD [OF assms, of x tr1] obtain new where "snd (k x tr1) = tr1 @ new" by blast
    with Pair Inr show ?thesis by (simp add: bind_def)
  qed
qed

lemma appends_log_sha_prefix: "appends P (log_sha_prefix v)"
  by (simp add: log_sha_prefix_def appends_raise appends_ret)

lemma appends_after_put: "appends P (after_put file file_name file_action r)"
  unfolding after_put_def
  by (intro appends_case_prod appends_if appends_bind appends_raise appends_ret appends_lift
      appends_log_sha_prefix)

lemma appends_push_file:
  assumes "\<And>r. P (Http (Get_contents repo (f_name file)) r)"
    and "\<And>pl r. P (Http (Put_contents repo (f_name file) pl) r)"
  shows "appends P (push_file e repo round file)"
  unfolding push_file_def Let_def resolve_action_def
  by (intro appends_case_prod appends_if appends_bind appends_raise appends_ret appends_lift
      appends_log_sha_prefix appends_after_put appends_send appends_get_file assms)

lemma appends_push_files:
  assumes "\<And>file r. file \<in> set files \<Longrightarrow> P (Http (Get_contents repo (f_name file)) r)"
    and "\<And>file pl r. file \<in> set files \<Longrightarrow> P (Http (Put_contents repo (f_name file) pl) r)"
  shows "appends P (push_files_to_repo e repo files round)"
  using assms
proof (induction files)
  case Nil
  show ?case by (simp add: appends_ret)
next
  case (Cons f fs)
  have "appends P (push_file e repo round f)"
    by (rule appends_push_file) (simp_all add: Cons.prems)
  moreover have "appends P (push_files_to_repo e repo fs round)"
    by (rule Cons.IH) (simp_all add: Cons.prems)
  ultimately show ?case
    by (simp add: appends_bind appends_ret)
qed

lemma appends_any_push_files:
  "appends (\<lambda>ev. True) (push_files_to_repo e repo files round)"
  by (rule appends_push_files) simp_all

lemma repository_exists_eq:
  "repository_exists e repo tr =
     (case http e tr (Get_repo repo) of
        Conn_err \<Rightarrow> (Inl ConnectionError, tr @ [Http (Get_repo repo) Conn_err])
      | Response st body \<Rightarrow> (Inr (st = 200), tr @ [Http (Get_repo repo) (Response st body)]))"
  by (simp add: repository_exists_def bind_def send_def ret_def split: http_result.splits)

lemma check_repo_has_required_files_eq:
  "check_repo_has_required_files e repo tr =
     (case get_file_content_from_repo e repo (JStr ''index.html'') tr of
        (Inl err, tr1) \<Rightarrow> (Inl err, tr1)
      | (Inr (c1, s1), tr1) \<Rightarrow>
          if c1 = [] then (Inr False, tr1)
          else (case get_file_content_from_repo e repo (JStr ''README.md'') tr1 of
                  (Inl err, tr2) \<Rightarrow> (Inl err, tr2)
                | (Inr (c2, s2), tr2) \<Rightarrow> (Inr (c2 \<noteq> []), tr2)))"
  by (simp add: check_repo_has_required_files_def bind_def ret_def
      split: prod.splits sum.splits)

lemma select_path_eq:
  "select_path e data tr =
     (case repository_exists e (dict_get data ''task'') tr of
        (Inl err, tr1) \<Rightarrow> (Inl err, tr1)
      | (Inr repo_exists, tr1) \<Rightarrow>
          if repo_exists then
            (case check_repo_has_required_files e (dict_get data ''task'') tr1 of
               (Inl err, tr2) \<Rightarrow> (Inl err, tr2)
             | (Inr has_required_files, tr2) \<Rightarrow>
                 (Inr (if has_required_files then Revision else Creation), tr2))
          else (Inr Creation, tr1))"
  by (simp add: select_path_def Let_def bind_def ret_def split: prod.splits sum.splits)

lemmas model_defs =
  ret_def raise_def bind_def lift_def send_def sleep_def response_json_def
  dict_get_def dict_get_default_def has_key_def opt_get_def and_then_def or_empty_def item_def
  create_github_repo_def enable_github_pages_def get_sha_of_latest_commit_def
  repository_exists_def file_of_response_def get_file_content_from_repo_def
  check_repo_has_required_files_def log_sha_prefix_def resolve_action_def encode_content_def
  make_payload_def created_sha_def after_put_def action_of_def push_file_def
  llm_message_content_def call_llm_def decode_attachment_def attachment_context_of_def
  json_loads_value_def files_of_document_def recognised_def initial_entry_def
  write_code_with_llm_def
  update_entry_def update_code_with_llm_def post_attempt_def ping_evaluation_server_def
  evaluation_payload_of_def notify_and_return_def build_initial_application_def
  ensure_sha_def revise_existing_application_def select_path_def
  process_task_background_def Let_def numeral_3_eq_3

lemmas example_defs =
  env_complete_def env_absent_def task_full_def task_ok_def chat_body_def generated_def

lemma fetch_existing_two:
  "fetch_existing e repo [a, b] [] tr =
     (case get_file_content_from_repo e repo (JStr a) tr of
        (Inl err, tr1) \<Rightarrow> (Inl err, tr1)
      | (Inr (c1, s1), tr1) \<Rightarrow>
          if c1 \<noteq> [] \<and> truthy s1 \<and> \<not> sliceable s1 then (Inl TypeError, tr1)
          else (case get_file_content_from_repo e repo (JStr b) tr1 of
                  (Inl err, tr2) \<Rightarrow> (Inl err, tr2)
                | (Inr (c2, s2), tr2) \<Rightarrow>
                    if c2 \<noteq> [] \<and> truthy s2 \<and> \<not> sliceable s2 then (Inl TypeError, tr2)
                    else (Inr ((if c1 \<noteq> []
                                then [\<lparr>ef_name = JStr a, ef_content = c1, ef_sha = s1\<rparr>]
                                else [])
                             @ (if c2 \<noteq> []
                                then [\<lparr>ef_name = JStr b, ef_content = c2, ef_sha = s2\<rparr>]
                                else [])), tr2)))"
  by (auto simp: bind_def ret_def raise_def log_sha_prefix_def split: prod.splits sum.splits)

lemma fails_bind:
  assumes "\<And>x. fails (f x)"
  shows "fails (bind m f)"
  unfolding fails_def
proof
  fix tr
  show "\<exists>err. fst (bind m f tr) = Inl err"
  proof (cases "m tr")
    case (Pair r tr1)
    show ?thesis
    proof (cases r)
      case (Inl err)
      with Pair show ?thesis by (simp add: bind_def)
    next
      case (Inr x)
      from assms [of x] obtain err where "fst (f x tr1) = Inl err"
        unfolding fails_def by blast
      with Pair Inr show ?thesis by (simp add: bind_def)
    qed
  qed
qed

lemma failsD: "fails m \<Longrightarrow> \<exists>err. fst (m tr) = Inl err"
  by (simp add: fails_def)

lemma appends_sum_case:
  "(\<And>err. appends P (f err)) \<Longrightarrow> (\<And>x. appends P (g x)) \<Longrightarrow>
     appends P (case r of Inl err \<Rightarrow> f err | Inr x \<Rightarrow> g x)"
  by (cases r) simp_all

lemma appends_create_github_repo:
  "(\<And>r. P (Http (Post_user_repos repo) r)) \<Longrightarrow> appends P (create_github_repo e repo)"
  unfolding create_github_repo_def
  by (intro appends_bind appends_case_prod appends_if appends_raise appends_lift appends_send)

lemma appends_enable_github_pages:
  "(\<And>r. P (Http (Post_pages repo) r)) \<Longrightarrow> appends P (enable_github_pages e repo)"
  unfolding enable_github_pages_def
  by (intro appends_bind appends_case_prod appends_if appends_raise appends_ret appends_send)

lemma appends_get_sha_of_latest_commit:
  "(\<And>r. P (Http (Get_commit repo ''main'') r)) \<Longrightarrow>
     appends P (get_sha_of_latest_commit e repo)"
  unfolding get_sha_of_latest_commit_def
  by (intro appends_bind appends_case_prod appends_if appends_raise appends_lift appends_send)

lemma appends_repository_exists:
  "(\<And>r. P (Http (Get_repo repo) r)) \<Longrightarrow> appends P (repository_exists e repo)"
  unfolding repository_exists_def
  by (intro appends_bind appends_case_prod appends_ret appends_send)

lemma appends_check_required_loop:
  "(\<And>p r. P (Http (Get_contents repo p) r)) \<Longrightarrow> appends P (check_required_loop e repo ps)"
proof (induction ps)
  case Nil
  show ?case by (simp add: appends_ret)
next
  case (Cons p ps)
  then show ?case
    by (simp add: appends_bind appends_case_prod appends_if appends_ret appends_get_file)
qed

lemma appends_select_path:
  assumes "\<And>repo r. P (Http (Get_repo repo) r)"
    and "\<And>repo p r. P (Http (Get_contents repo p) r)"
  shows "appends P (select_path e data)"
  unfolding select_path_def Let_def check_repo_has_required_files_def
  by (intro appends_bind appends_if appends_ret appends_repository_exists
      appends_check_required_loop assms)

lemma appends_fetch_existing:
  "(\<And>p r. P (Http (Get_contents repo p) r)) \<Longrightarrow>
     appends P (fetch_existing e repo ps existing)"
proof (induction ps arbitrary: existing)
  case Nil
  show ?case by (simp add: appends_ret)
next
  case (Cons p ps)
  then show ?case
    by (simp add: appends_bind appends_case_prod appends_if appends_log_sha_prefix
        appends_get_file)
qed

lemma appends_call_llm:
  "(\<And>r. P (Http (Post_chat p) r)) \<Longrightarrow> appends P (call_llm e p)"
  unfolding call_llm_def
  by (intro appends_bind appends_case_prod appends_if appends_raise appends_lift appends_send)

lemma appends_write_code_with_llm:
  "(\<And>p r. P (Http (Post_chat p) r)) \<Longrightarrow>
     appends P (write_code_with_llm e brief checks attachments)"
  unfolding write_code_with_llm_def
  by (intro appends_bind appends_lift appends_call_llm)

lemma appends_update_code_with_llm:
  "(\<And>p r. P (Http (Post_chat p) r)) \<Longrightarrow>
     appends P (update_code_with_llm e brief checks attachments repo existing)"
  unfolding update_code_with_llm_def
  by (intro appends_bind appends_lift appends_call_llm)

lemma appends_post_attempt:
  "(\<And>r. P (Http (Post_evaluation url pl) r)) \<Longrightarrow> appends P (post_attempt e url pl)"
  by (auto simp: appends_def post_attempt_def send_def split: http_result.splits)

lemma appends_ping_loop:
  assumes "\<And>r. P (Http (Post_evaluation url pl) r)" and "\<And>n. P (Sleep n)"
  shows "appends P (ping_loop e url pl attempt n)"
proof (induction n arbitrary: attempt)
  case 0
  show ?case by (simp add: appends_ret)
next
  case (Suc n)
  then show ?case
    by (simp add: appends_bind appends_if appends_ret appends_sleep appends_post_attempt assms)
qed

lemma appends_notify_and_return:
  assumes "\<And>url pl r. P (Http (Post_evaluation url pl) r)" and "\<And>n. P (Sleep n)"
  shows "appends P (notify_and_return e data repo commit_sha)"
  unfolding notify_and_return_def ping_evaluation_server_def
  by (intro appends_bind appends_lift appends_ret appends_ping_loop assms)

text \<open>Without round or nonce the payload cannot be built: the step raises at once.\<close>

lemma notify_and_return_incomplete:
  assumes "\<not> has_key data ''round'' \<or> \<not> has_key data ''nonce''"
  shows "\<exists>err. notify_and_return e data repo commit_sha tr = (Inl err, tr)"
  using assms
  by (auto simp: notify_and_return_def evaluation_payload_of_def and_then_def item_def
      has_key_def bind_def lift_def split: option.splits)

lemma notify_and_return_incomplete_fails:
  assumes "\<not> has_key data ''round'' \<or> \<not> has_key data ''nonce''"
  shows "fails (notify_and_return e data repo commit_sha)"
  unfolding fails_def using notify_and_return_incomplete [OF assms] by (metis fst_conv)

lemma notify_and_return_incomplete_appends:
  assumes "\<not> has_key data ''round'' \<or> \<not> has_key data ''nonce''"
  shows "appends P (notify_and_return e data repo commit_sha)"
  unfolding appends_def
proof
  fix tr
  from notify_and_return_incomplete [OF assms, of e repo commit_sha tr]
  have "snd (notify_and_return e data repo commit_sha tr) = tr @ []" by auto
  then show "\<exists>new. snd (notify_and_return e data repo commit_sha tr) = tr @ new \<and> list_all P new"
    by (intro exI [of _ "[]"]) simp
qed

lemma process_task_background_workflow:
  "process_task_background e data tr =
     (case workflow e data tr of
        (Inl err, tr') \<Rightarrow> (Processing_failed err, tr')
      | (Inr l, tr') \<Rightarrow> (l, tr'))"
  by (simp add: process_task_background_def workflow_def bind_def ret_def
      split: prod.splits sum.splits path.splits)

lemma snd_process_task_background:
  "snd (process_task_background e data tr) = snd (workflow e data tr)"
  by (simp add: process_task_background_workflow split: prod.splits sum.splits)

lemma appends_path_case:
  "appends P m1 \<Longrightarrow> appends P m2 \<Longrightarrow>
     appends P (case chosen of Revision \<Rightarrow> m1 | Creation \<Rightarrow> m2)"
  by (cases chosen) simp_all

lemma fails_path_case:
  "fails m1 \<Longrightarrow> fails m2 \<Longrightarrow> fails (case chosen of Revision \<Rightarrow> m1 | Creation \<Rightarrow> m2)"
  by (cases chosen) simp_all

lemma fails_bind_left:
  assumes "fails m"
  shows "fails (bind m f)"
  unfolding fails_def
proof
  fix tr
  from failsD [OF assms, of tr] obtain err where "fst (m tr) = Inl err" by blast
  then show "\<exists>err. fst (bind m f tr) = Inl err"
    by (cases "m tr") (simp add: bind_def)
qed

section \<open>Triples\<close>

lemma tripleI:
  assumes "\<And>tr err tr'. pre tr \<Longrightarrow> m tr = (Inl err, tr') \<Longrightarrow> exc tr'"
    and "\<And>tr x tr'. pre tr \<Longrightarrow> m tr = (Inr x, tr') \<Longrightarrow> post x tr'"
  shows "triple pre m post exc"
  unfolding triple_def
proof (intro allI impI)
  fix tr
  assume "pre tr"
  with assms show "case m tr of (Inl err, tr') \<Rightarrow> exc tr' | (Inr x, tr') \<Rightarrow> post x tr'"
    by (cases "m tr"; cases "fst (m tr)") auto
qed

lemma tripleD_exc:
  assumes "triple pre m post exc" and "pre tr" and "m tr = (Inl err, tr')"
  shows "exc tr'"
proof -
  from assms(1,2)
  have "case m tr of (Inl err, tr') \<Rightarrow> exc tr' | (Inr x, tr') \<Rightarrow> post x tr'"
    by (simp add: triple_def)
  with assms(3) show ?thesis by simp
qed

lemma tripleD_post:
  assumes "triple pre m post exc" and "pre tr" and "m tr = (Inr x, tr')"
  shows "post x tr'"
proof -
  from assms(1,2)
  have "case m tr of (Inl err, tr') \<Rightarrow> exc tr' | (Inr x, tr') \<Rightarrow> post x tr'"
    by (simp add: triple_def)
  with assms(3) show ?thesis by simp
qed

lemma triple_bind:
  assumes m: "triple pre m mid exc" and f: "\<And>x. triple (mid x) (f x) post exc"
  shows "triple pre (bind m f) post exc"
proof (rule tripleI)
  fix tr err tr'
  assume pre: "pre tr" and run: "bind m f tr = (Inl err, tr')"
  show "exc tr'"
  proof (cases "m tr")
    case (Pair r tr1)
    show ?thesis
    proof (cases r)
      case (Inl err1)
      with Pair run have "m tr = (Inl err1, tr')" by (simp add: bind_def)
      from tripleD_exc [OF m pre this] show ?thesis .
    next
      case (Inr x)
      with Pair run have "f x tr1 = (Inl err, tr')" by (simp add: bind_def)
      moreover from tripleD_post [OF m pre] Pair Inr have "mid x tr1" by simp
      ultimately show ?thesis using tripleD_exc [OF f] by blast
    qed
  qed
next
  fix tr y tr'
  assume pre: "pre tr" and run: "bind m f tr = (Inr y, tr')"
  show "post y tr'"
  proof (cases "m tr")
    case (Pair r tr1)
    show ?thesis
    proof (cases r)
      case (Inl err1)
      with Pair run show ?thesis by (simp add: bind_def)
    next
      case (Inr x)
      with Pair run have "f x tr1 = (Inr y, tr')" by (simp add: bind_def)
      moreover from tripleD_post [OF m pre] Pair Inr have "mid x tr1" by simp
      ultimately show ?thesis using tripleD_post [OF f] by blast
    qed
  qed
qed

lemma triple_ret: "(\<And>tr. pre tr \<Longrightarrow> post x tr) \<Longrightarrow> triple pre (ret x) post exc"
  by (simp add: triple_def ret_def)

lemma triple_lift:
  assumes "\<And>tr. pre tr \<Longrightarrow> exc tr" and "\<And>tr x. pre tr \<Longrightarrow> post x tr"
  shows "triple pre (lift r) post exc"
  using assms by (cases r) (simp_all add: triple_def lift_def)

lemma triple_pre:
  "triple pre' m post exc \<Longrightarrow> (\<And>tr. pre tr \<Longrightarrow> pre' tr) \<Longrightarrow> triple pre m post exc"
  by (simp add: triple_def)

lemma triple_appends:
  assumes a: "appends P m" and y: "yields Q m"
    and e: "\<And>tr new. pre tr \<Longrightarrow> list_all P new \<Longrightarrow> exc (tr @ new)"
    and p: "\<And>tr new x. pre tr \<Longrightarrow> list_all P new \<Longrightarrow> Q x \<Longrightarrow> post x (tr @ new)"
  shows "triple pre m post exc"
proof (rule tripleI)
  fix tr err tr'
  assume "pre tr" and run: "m tr = (Inl err, tr')"
  from appendsD [OF a, of tr] run obtain new where "tr' = tr @ new" "list_all P new" by auto
  with \<open>pre tr\<close> e show "exc tr'" by simp
next
  fix tr x tr'
  assume "pre tr" and run: "m tr = (Inr x, tr')"
  from appendsD [OF a, of tr] run obtain new where "tr' = tr @ new" "list_all P new" by auto
  moreover from y run have "Q x" unfolding yields_def by blast
  ultimately show "post x tr'" using \<open>pre tr\<close> p by simp
qed

lemma yields_True: "yields (\<lambda>x. True) m"
  by (simp add: yields_def)

lemma yields_bind:
  assumes "\<And>x. yields Q (f x)"
  shows "yields Q (bind m f)"
  unfolding yields_def
proof (intro allI impI)
  fix tr y tr'
  assume run: "bind m f tr = (Inr y, tr')"
  show "Q y"
  proof (cases "m tr")
    case (Pair r tr1)
    show ?thesis
    proof (cases r)
      case (Inl err)
      with Pair run show ?thesis by (simp add: bind_def)
    next
      case (Inr x)
      with Pair run have "f x tr1 = (Inr y, tr')" by (simp add: bind_def)
      with assms [of x] show ?thesis unfolding yields_def by blast
    qed
  qed
qed

lemma yields_lift: "(\<And>x. r = Inr x \<Longrightarrow> Q x) \<Longrightarrow> yields Q (lift r)"
  by (simp add: yields_def lift_def)

section \<open>The latest read and the writes of a trace\<close>

lemma latest_read_snoc:
  "latest_read e repo p (tr @ [ev])
     = (if is_read_of repo p ev then token_of e ev else latest_read e repo p tr)"
  by (simp add: latest_read_def)

lemma latest_read_append_others:
  "list_all (\<lambda>ev. \<not> is_read_of repo p ev) new \<Longrightarrow>
     latest_read e repo p (tr @ new) = latest_read e repo p tr"
proof (induction new rule: rev_induct)
  case Nil
  show ?case by simp
next
  case (snoc ev new)
  then show ?case
    using latest_read_snoc [of e repo p "tr @ new" ev] by simp
qed

lemma writes_ok_append:
  "writes_ok e past (xs @ ys) = (writes_ok e past xs \<and> writes_ok e (past @ xs) ys)"
  by (induction xs arbitrary: past) auto

lemma put_ok_not_put: "\<not> is_put ev \<Longrightarrow> put_ok e past ev"
proof (cases ev)
  case (Http rq r)
  assume "\<not> is_put ev"
  with Http show ?thesis
    by (cases rq) (simp_all add: put_ok_def is_put_def)
next
  case (Sleep n)
  then show ?thesis by (simp add: put_ok_def)
qed

lemma writes_ok_no_puts:
  "list_all (\<lambda>ev. \<not> is_put ev) new \<Longrightarrow> writes_ok e past new"
  by (induction new arbitrary: past) (simp_all add: put_ok_not_put)

lemma writes_ok_extend:
  "writes_ok e [] tr \<Longrightarrow> list_all (\<lambda>ev. \<not> is_put ev) new \<Longrightarrow> writes_ok e [] (tr @ new)"
  by (simp add: writes_ok_append writes_ok_no_puts)

lemma writes_ok_nth:
  "writes_ok e past fut \<Longrightarrow> i < length fut \<Longrightarrow> put_ok e (past @ take i fut) (fut ! i)"
proof (induction fut arbitrary: past i)
  case Nil
  then show ?case by simp
next
  case (Cons ev fut)
  show ?case
  proof (cases i)
    case 0
    with Cons.prems show ?thesis by simp
  next
    case (Suc j)
    with Cons.prems have "put_ok e ((past @ [ev]) @ take j fut) (fut ! j)"
      by (intro Cons.IH) simp_all
    with Suc show ?thesis by simp
  qed
qed

section \<open>What the generator adapter returns\<close>

lemma filter_initial_entries:
  "filter_initial items acc = Inr files \<Longrightarrow>
     \<forall>f \<in> set acc. recognised (f_name f) \<and> f_action f = None \<Longrightarrow>
     \<forall>f \<in> set files. recognised (f_name f) \<and> f_action f = None"
proof (induction items arbitrary: acc)
  case Nil
  then show ?case by simp
next
  case (Cons it items)
  show ?case
  proof (cases it)
    case (JObj d)
    let ?entry = "initial_entry d"
    show ?thesis
    proof (cases "recognised (dict_get d ''name'')")
      case True
      have "\<forall>f \<in> set (acc @ [?entry]). recognised (f_name f) \<and> f_action f = None"
        using Cons.prems(2) True by (simp add: initial_entry_def)
      moreover from Cons.prems(1) JObj True
      have "filter_initial items (acc @ [?entry]) = Inr files" by simp
      ultimately show ?thesis by (rule Cons.IH [rotated])
    next
      case False
      with Cons.prems(1) JObj have "filter_initial items acc = Inr files" by simp
      then show ?thesis using Cons.prems(2) by (rule Cons.IH)
    qed
  qed (use Cons.prems(1) in simp_all)
qed

lemma filter_update_entries:
  "filter_update m items acc = Inr files \<Longrightarrow>
     \<forall>f \<in> set acc. recognised (f_name f) \<and> (\<exists>d. f = update_entry m d) \<Longrightarrow>
     \<forall>f \<in> set files. recognised (f_name f) \<and> (\<exists>d. f = update_entry m d)"
proof (induction items arbitrary: acc)
  case Nil
  then show ?case by simp
next
  case (Cons it items)
  show ?case
  proof (cases it)
    case (JObj d)
    show ?thesis
    proof (cases "recognised (dict_get d ''name'')")
      case True
      have "\<forall>f \<in> set (acc @ [update_entry m d]).
              recognised (f_name f) \<and> (\<exists>d. f = update_entry m d)"
        using Cons.prems(2) True by (auto simp: update_entry_def Let_def)
      moreover from Cons.prems(1) JObj True
      have "filter_update m items (acc @ [update_entry m d]) = Inr files" by simp
      ultimately show ?thesis by (rule Cons.IH [rotated])
    next
      case False
      with Cons.prems(1) JObj have "filter_update m items acc = Inr files" by simp
      then show ?thesis using Cons.prems(2) by (rule Cons.IH)
    qed
  qed (use Cons.prems(1) in simp_all)
qed

lemma yields_write_code_with_llm:
  "yields (\<lambda>files. \<forall>f \<in> set files. recognised (f_name f) \<and> f_action f = None)
     (write_code_with_llm e brief checks attachments)"
  unfolding write_code_with_llm_def
proof (intro yields_bind yields_lift)
  fix x xa xb files
  assume "and_then (json_loads_value e xb)
            (\<lambda>response_data. and_then (files_of_document response_data)
               (\<lambda>files. filter_initial files [])) = Inr files"
  then obtain items where "filter_initial items [] = Inr files"
    by (auto simp: and_then_def split: sum.splits)
  from filter_initial_entries [OF this]
  show "\<forall>f \<in> set files. recognised (f_name f) \<and> f_action f = None" by simp
qed

lemma yields_update_code_with_llm:
  "yields (\<lambda>files. \<forall>f \<in> set files.
              recognised (f_name f) \<and> (\<exists>d. f = update_entry (sha_map_of existing) d))
     (update_code_with_llm e brief checks attachments repo existing)"
  unfolding update_code_with_llm_def
proof (intro yields_bind yields_lift)
  fix x xa xb files
  assume "and_then (json_loads_value e xb)
            (\<lambda>response_data. and_then (files_of_document response_data)
               (\<lambda>files. filter_update (sha_map_of existing) files [])) = Inr files"
  then obtain items where "filter_update (sha_map_of existing) items [] = Inr files"
    by (auto simp: and_then_def split: sum.splits)
  from filter_update_entries [OF this]
  show "\<forall>f \<in> set files.
          recognised (f_name f) \<and> (\<exists>d. f = update_entry (sha_map_of existing) d)" by simp
qed

lemma sha_map_of_Some:
  "sha_map_of existing n = Some s \<Longrightarrow> \<exists>ef \<in> set existing. ef_name ef = n \<and> ef_sha ef = s"
  by (induction existing) (auto split: option.splits if_splits)

lemma sha_map_of_None:
  "sha_map_of existing n = None \<Longrightarrow> \<forall>ef \<in> set existing. ef_name ef \<noteq> n"
  by (induction existing) (auto split: option.splits if_splits)

lemma find_None_name:
  "\<forall>ef \<in> set existing. ef_name ef \<noteq> n \<Longrightarrow> find (\<lambda>ef. ef_name ef = n) existing = None"
  by (induction existing) auto

lemma ensure_sha_update_entry:
  "ensure_sha existing (update_entry (sha_map_of existing) d)
     = update_entry (sha_map_of existing) d"
proof (cases "sha_map_of existing (dict_get d ''name'')")
  case None
  from find_None_name [OF sha_map_of_None [OF None]] None show ?thesis
    by (simp add: ensure_sha_def update_entry_def Let_def)
next
  case (Some s)
  then show ?thesis
    by (simp add: ensure_sha_def update_entry_def Let_def)
qed

section \<open>The example runs\<close>

lemma trace_classified_eq:
  "trace_classified =
     [Http (Get_repo (JStr ''demo'')) (Response 200 (Some (JObj []))),
      Http (Get_contents (JStr ''demo'') (JStr ''index.html''))
        (Response 200 (Some (JObj [(''content'', JStr ''b2xk''), (''sha'', JStr ''1111111'')]))),
      Http (Get_contents (JStr ''demo'') (JStr ''README.md''))
        (Response 200 (Some (JObj [(''content'', JStr ''b2xk''), (''sha'', JStr ''2222222'')])))]"
  by (simp add: trace_classified_def model_defs example_defs)

lemma run_complete:
  "process_task_background env_complete task_full []
     = (Update_completed (JStr ''demo''),
        trace_classified @
        [Http (Get_contents (JStr ''demo'') (JStr ''index.html''))
           (Response 200 (Some (JObj [(''content'', JStr ''b2xk''), (''sha'', JStr ''1111111'')]))),
         Http (Get_contents (JStr ''demo'') (JStr ''README.md''))
           (Response 200 (Some (JObj [(''content'', JStr ''b2xk''), (''sha'', JStr ''2222222'')]))),
         Http (Post_chat (Update_prompt (JStr ''make a page'') [] []
                 [(JStr ''index.html'', JStr ''b2xk''), (JStr ''README.md'', JStr ''b2xk'')]))
           (Response 200 (Some (chat_body ''DOC''))),
         put_index,
         put_readme,
         Http (Get_commit (JStr ''demo'') ''main'')
           (Response 200 (Some (JObj [(''sha'', JStr ''c0ffee'')]))),
         Http (Post_evaluation (JStr ''http://eval'')
                 \<lparr>ep_email = JStr ''a@b.c'', ep_task = JStr ''demo'', ep_round = JNum 2,
                  ep_nonce = JStr ''n-1'', ep_repo_url = JStr ''demo'',
                  ep_commit_sha = JStr ''c0ffee'', ep_pages_url = JStr ''demo''\<rparr>)
           (Response 200 None)])"
  by (simp add: trace_classified_eq put_index_def put_readme_def model_defs example_defs)




section \<open>Choosing the path\<close>

text \<open>
  C1. With \<open>ex\<close> the existence query and \<open>idx\<close>, \<open>rdm\<close> the reads of the two required files,
  each made on the remote as the run finds it: the run takes the Revision path exactly when
  the repository is reported to exist and both files are read with content, and the
  Creation path exactly when the repository is reported absent or a file is read without
  content. Two task bodies that name the same repository get the same decision, whatever
  round they state; and the run continues with the function of the path chosen.
\<close>

theorem select_path_live_queries:
  "(let repo = dict_get data ''task'';
        ex = repository_exists e repo tr;
        idx = get_file_content_from_repo e repo (JStr ''index.html'') (snd ex);
        rdm = get_file_content_from_repo e repo (JStr ''README.md'') (snd idx);
        chosen = select_path e data tr
    in (fst chosen = Inr Revision
          \<longleftrightarrow> fst ex = Inr True \<and> readable (fst idx) \<and> readable (fst rdm))
     \<and> (fst chosen = Inr Creation
          \<longleftrightarrow> fst ex = Inr False
              \<or> (fst ex = Inr True
                  \<and> (unreadable (fst idx) \<or> (readable (fst idx) \<and> unreadable (fst rdm)))))
     \<and> (\<forall>data'. dict_get data' ''task'' = repo \<longrightarrow> select_path e data' tr = chosen)
     \<and> (fst chosen = Inr Revision \<longrightarrow>
          snd (process_task_background e data tr)
            = snd (revise_existing_application e data (snd chosen)))
     \<and> (fst chosen = Inr Creation \<longrightarrow>
          snd (process_task_background e data tr)
            = snd (build_initial_application e data (snd chosen))))"
proof -
  let ?repo = "dict_get data ''task''"
  let ?ex = "repository_exists e ?repo tr"
  let ?idx = "get_file_content_from_repo e ?repo (JStr ''index.html'') (snd ?ex)"
  let ?rdm = "get_file_content_from_repo e ?repo (JStr ''README.md'') (snd ?idx)"
  let ?chosen = "select_path e data tr"
  have rev: "fst ?chosen = Inr Revision
      \<longleftrightarrow> fst ?ex = Inr True \<and> readable (fst ?idx) \<and> readable (fst ?rdm)"
    by (cases ?ex; cases ?idx; cases ?rdm)
       (auto simp: select_path_eq check_repo_has_required_files_eq readable_def
          split: sum.splits prod.splits if_splits)
  have cre: "fst ?chosen = Inr Creation
      \<longleftrightarrow> fst ?ex = Inr False
          \<or> (fst ?ex = Inr True
              \<and> (unreadable (fst ?idx) \<or> (readable (fst ?idx) \<and> unreadable (fst ?rdm))))"
    by (cases ?ex; cases ?idx; cases ?rdm)
       (auto simp: select_path_eq check_repo_has_required_files_eq readable_def unreadable_def
          split: sum.splits prod.splits if_splits)
  have "select_path e data' tr = ?chosen" if "dict_get data' ''task'' = ?repo" for data'
    unfolding select_path_def Let_def that by (rule refl)
  then have same: "\<forall>data'. dict_get data' ''task'' = ?repo \<longrightarrow> select_path e data' tr = ?chosen"
    by blast
  have go_rev: "fst ?chosen = Inr Revision \<longrightarrow>
      snd (process_task_background e data tr)
        = snd (revise_existing_application e data (snd ?chosen))"
    by (cases ?chosen) (auto simp: process_task_background_def split: sum.splits prod.splits)
  have go_cre: "fst ?chosen = Inr Creation \<longrightarrow>
      snd (process_task_background e data tr)
        = snd (build_initial_application e data (snd ?chosen))"
    by (cases ?chosen) (auto simp: process_task_background_def split: sum.splits prod.splits)
  from rev cre same go_rev go_cre show ?thesis
    unfolding Let_def by blast
qed

lemma select_path_complete:
  "select_path env_complete ((''round'', JNum 1) # task_ok) []
     = (Inr Revision,
        [Http (Get_repo (JStr ''demo'')) (Response 200 (Some (JObj []))),
         Http (Get_contents (JStr ''demo'') (JStr ''index.html''))
           (Response 200 (Some (JObj [(''content'', JStr ''b2xk''), (''sha'', JStr ''1111111'')]))),
         Http (Get_contents (JStr ''demo'') (JStr ''README.md''))
           (Response 200 (Some (JObj [(''content'', JStr ''b2xk''), (''sha'', JStr ''2222222'')])))])"
  by (simp add: select_path_eq check_repo_has_required_files_eq repository_exists_eq
      get_file_content_from_repo_eq file_of_response_def env_complete_def task_ok_def
      dict_get_def response_json_def)

lemma select_path_absent:
  "select_path env_absent ((''round'', JNum 2) # task_ok) []
     = (Inr Creation, [Http (Get_repo (JStr ''demo'')) (Response 404 None)])"
  by (simp add: select_path_eq repository_exists_eq env_absent_def task_ok_def dict_get_def)

theorem select_path_live_queries_witness:
  "fst (select_path env_complete ((''round'', JNum 1) # task_ok) []) = Inr Revision
   \<and> fst (select_path env_absent ((''round'', JNum 2) # task_ok) []) = Inr Creation
   \<and> select_path env_complete ((''round'', JNum 7) # task_ok) []
       = select_path env_complete ((''round'', JNum 1) # task_ok) []
   \<and> snd (process_task_background env_complete ((''round'', JNum 1) # task_ok) [])
       = snd (revise_existing_application env_complete ((''round'', JNum 1) # task_ok)
                (snd (select_path env_complete ((''round'', JNum 1) # task_ok) [])))
   \<and> snd (process_task_background env_absent ((''round'', JNum 2) # task_ok) [])
       = snd (build_initial_application env_absent ((''round'', JNum 2) # task_ok)
                (snd (select_path env_absent ((''round'', JNum 2) # task_ok) [])))"
proof -
  note a = select_path_live_queries [of "(''round'', JNum 1) # task_ok" env_complete "[]"]
  note b = select_path_live_queries [of "(''round'', JNum 2) # task_ok" env_absent "[]"]
  have t: "dict_get ((''round'', JNum 7) # task_ok) ''task''
             = dict_get ((''round'', JNum 1) # task_ok) ''task''"
    by (simp add: dict_get_def task_ok_def)
  from a t have "select_path env_complete ((''round'', JNum 7) # task_ok) []
       = select_path env_complete ((''round'', JNum 1) # task_ok) []"
    unfolding Let_def by blast
  moreover from a select_path_complete
  have "snd (process_task_background env_complete ((''round'', JNum 1) # task_ok) [])
       = snd (revise_existing_application env_complete ((''round'', JNum 1) # task_ok)
                (snd (select_path env_complete ((''round'', JNum 1) # task_ok) [])))"
    unfolding Let_def by simp
  moreover from b select_path_absent
  have "snd (process_task_background env_absent ((''round'', JNum 2) # task_ok) [])
       = snd (build_initial_application env_absent ((''round'', JNum 2) # task_ok)
                (snd (select_path env_absent ((''round'', JNum 2) # task_ok) [])))"
    unfolding Let_def by simp
  ultimately show ?thesis
    using select_path_complete select_path_absent by simp
qed

section \<open>Writing without a token\<close>

text \<open>
  C3. A file whose action is \<open>update\<close> and which carries no token is first read again from
  the remote. A token that the read returns is the one the update is sent with; when the
  read returns none, the file is sent all the same, as a create: the message says Add and
  the payload has no \<open>sha\<close>.
\<close>

theorem push_files_to_repo_missing_token:
  "action_of round file = JStr ''update'' \<longrightarrow> \<not> truthy (opt_get (f_sha file)) \<longrightarrow>
     (\<exists>rest. snd (push_files_to_repo e repo (file # files) round tr)
        = tr @ Http (Get_contents repo (f_name file))
                 (http e tr (Get_contents repo (f_name file))) # rest)
     \<and> (\<forall>st body content sha source.
          http e tr (Get_contents repo (f_name file)) = Response st body \<longrightarrow>
          file_of_response e (st, body) = Inr (content, sha) \<longrightarrow>
          f_content file = JStr source \<longrightarrow>
          (\<not> truthy sha \<longrightarrow>
             (\<exists>answer rest. snd (push_files_to_repo e repo (file # files) round tr)
                = tr @ [Http (Get_contents repo (f_name file)) (Response st body),
                        Http (Put_contents repo (f_name file)
                               \<lparr>message_verb = Add, message_file = f_name file,
                                message_round = round, payload_content = b64encode e source,
                                payload_sha = None\<rparr>) answer] @ rest))
          \<and> (truthy sha \<longrightarrow> sliceable sha \<longrightarrow>
             (\<exists>answer rest. snd (push_files_to_repo e repo (file # files) round tr)
                = tr @ [Http (Get_contents repo (f_name file)) (Response st body),
                        Http (Put_contents repo (f_name file)
                               \<lparr>message_verb = Update, message_file = f_name file,
                                message_round = round, payload_content = b64encode e source,
                                payload_sha = Some sha\<rparr>) answer] @ rest)))"
proof (intro impI)
  let ?rq = "Get_contents repo (f_name file)"
  let ?run = "push_files_to_repo e repo (file # files) round tr"
  let ?k = "\<lambda>file'. bind (push_files_to_repo e repo files round) (\<lambda>files'. ret (file' # files'))"
  assume upd: "action_of round file = JStr ''update''"
    and no_token: "\<not> truthy (opt_get (f_sha file))"
  have k: "\<And>x. appends (\<lambda>ev. True) (?k x)"
    by (intro appends_bind appends_any_push_files appends_ret)
  from snd_bind_extends [of "\<lambda>ev. True" ?k "push_file e repo round file" tr, OF k]
  obtain rest0 where run: "snd ?run = snd (push_file e repo round file tr) @ rest0"
    by auto
  note step = push_file_reread [OF upd no_token, of e repo tr]
  have first: "\<exists>rest. snd (push_file e repo round file tr) = tr @ Http ?rq (http e tr ?rq) # rest"
    unfolding step
    by (cases "http e tr ?rq")
       (auto simp: get_file_content_from_repo_eq snd_send_after_put split: sum.splits)
  show "(\<exists>rest. snd ?run = tr @ Http ?rq (http e tr ?rq) # rest) \<and>
      (\<forall>st body content sha source.
          http e tr ?rq = Response st body \<longrightarrow>
          file_of_response e (st, body) = Inr (content, sha) \<longrightarrow>
          f_content file = JStr source \<longrightarrow>
          (\<not> truthy sha \<longrightarrow>
             (\<exists>answer rest. snd ?run
                = tr @ [Http ?rq (Response st body),
                        Http (Put_contents repo (f_name file)
                               \<lparr>message_verb = Add, message_file = f_name file,
                                message_round = round, payload_content = b64encode e source,
                                payload_sha = None\<rparr>) answer] @ rest))
          \<and> (truthy sha \<longrightarrow> sliceable sha \<longrightarrow>
             (\<exists>answer rest. snd ?run
                = tr @ [Http ?rq (Response st body),
                        Http (Put_contents repo (f_name file)
                               \<lparr>message_verb = Update, message_file = f_name file,
                                message_round = round, payload_content = b64encode e source,
                                payload_sha = Some sha\<rparr>) answer] @ rest)))"
  proof (intro conjI allI impI)
    from first run show "\<exists>rest. snd ?run = tr @ Http ?rq (http e tr ?rq) # rest"
      by auto
  next
    fix st body content sha source
    assume r: "http e tr ?rq = Response st body"
      and f: "file_of_response e (st, body) = Inr (content, sha)"
      and c: "f_content file = JStr source"
      and none: "\<not> truthy sha"
    have "\<exists>answer. snd (push_file e repo round file tr)
            = tr @ [Http ?rq (Response st body),
                    Http (Put_contents repo (f_name file)
                            \<lparr>message_verb = Add, message_file = f_name file,
                             message_round = round, payload_content = b64encode e source,
                             payload_sha = None\<rparr>) answer]"
      unfolding step using r f c none
      by (simp add: get_file_content_from_repo_eq snd_send_after_put encode_content_def
          make_payload_def)
    with run show "\<exists>answer rest. snd ?run
                = tr @ [Http ?rq (Response st body),
                        Http (Put_contents repo (f_name file)
                               \<lparr>message_verb = Add, message_file = f_name file,
                                message_round = round, payload_content = b64encode e source,
                                payload_sha = None\<rparr>) answer] @ rest"
      by auto
  next
    fix st body content sha source
    assume r: "http e tr ?rq = Response st body"
      and f: "file_of_response e (st, body) = Inr (content, sha)"
      and c: "f_content file = JStr source"
      and some: "truthy sha" "sliceable sha"
    have "\<exists>answer. snd (push_file e repo round file tr)
            = tr @ [Http ?rq (Response st body),
                    Http (Put_contents repo (f_name file)
                            \<lparr>message_verb = Update, message_file = f_name file,
                             message_round = round, payload_content = b64encode e source,
                             payload_sha = Some sha\<rparr>) answer]"
      unfolding step using r f c some
      by (simp add: get_file_content_from_repo_eq snd_send_after_put encode_content_def
          make_payload_def)
    with run show "\<exists>answer rest. snd ?run
                = tr @ [Http ?rq (Response st body),
                        Http (Put_contents repo (f_name file)
                               \<lparr>message_verb = Update, message_file = f_name file,
                                message_round = round, payload_content = b64encode e source,
                                payload_sha = Some sha\<rparr>) answer] @ rest"
      by auto
  qed
qed

theorem push_files_to_repo_missing_token_witness:
  "action_of (JNum 2) stale_update = JStr ''update''
   \<and> \<not> truthy (opt_get (f_sha stale_update))
   \<and> push_files_to_repo env_deleted (JStr ''demo'') [stale_update] (JNum 2) []
       = (Inr [stale_update\<lparr>f_sha := Some (JStr ''f00dfeed'')\<rparr>],
          [Http (Get_contents (JStr ''demo'') (JStr ''index.html'')) (Response 404 None),
           Http (Put_contents (JStr ''demo'') (JStr ''index.html'')
                   \<lparr>message_verb = Add, message_file = JStr ''index.html'',
                    message_round = JNum 2, payload_content = ''<h1>hi</h1>'',
                    payload_sha = None\<rparr>)
             (Response 201 (Some (JObj [(''content'', JObj [(''sha'', JStr ''f00dfeed'')])])))])"
  using push_files_to_repo_missing_token
          [of "JNum 2" stale_update env_deleted "JStr ''demo''" "[]" "[]"]
  by (simp add: stale_update_def env_deleted_def action_of_def opt_get_def push_file_def
      Let_def bind_def ret_def lift_def raise_def log_sha_prefix_def resolve_action_def
      get_file_content_from_repo_eq file_of_response_def encode_content_def make_payload_def
      send_def after_put_def created_sha_def response_json_def dict_get_default_def
      dict_get_def)

section \<open>A generated document that cannot be used\<close>

text \<open>
  C4, as stated, fails. A document with index.html and no README.md is not rejected:
  index.html is published alone and the run completes. A document that is an empty object
  is not rejected either: the repository is created and hosting enabled, with no file.
\<close>

theorem incomplete_document_is_published:
  "process_task_background env_partial task_full []
     = (Creation_completed (JStr ''demo''),
        [Http (Get_repo (JStr ''demo'')) (Response 404 None),
         Http (Post_chat (Initial_prompt (JStr ''make a page'') [] []))
           (Response 200 (Some (chat_body ''DOC''))),
         Http (Post_user_repos (JStr ''demo'')) (Response 201 (Some (JObj []))),
         Http (Put_contents (JStr ''demo'') (JStr ''index.html'')
                 \<lparr>message_verb = Add, message_file = JStr ''index.html'',
                  message_round = JNum 1, payload_content = ''<h1>hi</h1>'',
                  payload_sha = None\<rparr>)
           (Response 201 (Some (JObj [(''content'', JObj [(''sha'', JStr ''f00dfeed'')])]))),
         Http (Post_pages (JStr ''demo'')) (Response 201 None),
         Http (Get_commit (JStr ''demo'') ''main'')
           (Response 200 (Some (JObj [(''sha'', JStr ''c0ffee'')]))),
         Http (Post_evaluation (JStr ''http://eval'')
                 \<lparr>ep_email = JStr ''a@b.c'', ep_task = JStr ''demo'', ep_round = JNum 2,
                  ep_nonce = JStr ''n-1'', ep_repo_url = JStr ''demo'',
                  ep_commit_sha = JStr ''c0ffee'', ep_pages_url = JStr ''demo''\<rparr>)
           (Response 200 None)])
   \<and> process_task_background env_no_files task_full []
     = (Creation_completed (JStr ''demo''),
        [Http (Get_repo (JStr ''demo'')) (Response 404 None),
         Http (Post_chat (Initial_prompt (JStr ''make a page'') [] []))
           (Response 200 (Some (chat_body ''DOC''))),
         Http (Post_user_repos (JStr ''demo'')) (Response 201 (Some (JObj []))),
         Http (Post_pages (JStr ''demo'')) (Response 201 None),
         Http (Get_commit (JStr ''demo'') ''main'')
           (Response 200 (Some (JObj [(''sha'', JStr ''c0ffee'')]))),
         Http (Post_evaluation (JStr ''http://eval'')
                 \<lparr>ep_email = JStr ''a@b.c'', ep_task = JStr ''demo'', ep_round = JNum 2,
                  ep_nonce = JStr ''n-1'', ep_repo_url = JStr ''demo'',
                  ep_commit_sha = JStr ''c0ffee'', ep_pages_url = JStr ''demo''\<rparr>)
           (Response 200 None)])"
  by (simp add: env_partial_def env_no_files_def model_defs example_defs)

lemma filter_initial_dicts:
  "filter_initial items acc = Inr files \<Longrightarrow> \<exists>ds. dicts_of items = Inr ds"
proof (induction items arbitrary: acc)
  case Nil
  show ?case by simp
next
  case (Cons it items)
  show ?case
  proof (cases it)
    case (JObj d)
    with Cons.prems obtain acc' where "filter_initial items acc' = Inr files"
      by (cases "recognised (dict_get d ''name'')") auto
    from Cons.IH [OF this] JObj show ?thesis by (auto simp: and_then_def)
  qed (use Cons.prems in simp_all)
qed

lemma filter_update_dicts:
  "filter_update m items acc = Inr files \<Longrightarrow> \<exists>ds. dicts_of items = Inr ds"
proof (induction items arbitrary: acc)
  case Nil
  show ?case by simp
next
  case (Cons it items)
  show ?case
  proof (cases it)
    case (JObj d)
    with Cons.prems obtain acc' where "filter_update m items acc' = Inr files"
      by (cases "recognised (dict_get d ''name'')") auto
    from Cons.IH [OF this] JObj show ?thesis by (auto simp: and_then_def)
  qed (use Cons.prems in simp_all)
qed

lemma call_llm_eq:
  "call_llm e p tr =
     (case http e tr (Post_chat p) of
        Conn_err \<Rightarrow> Inl ConnectionError
      | Response st body \<Rightarrow>
          if st \<noteq> 200 then Inl (LLM_call_failed st) else llm_message_content body,
      tr @ [Http (Post_chat p) (http e tr (Post_chat p))])"
  by (simp add: call_llm_def bind_def send_def raise_def lift_def split: http_result.splits)

lemma adapter_entries:
  assumes call: "call_llm e p tr = (Inr content, tr')"
    and doc: "and_then (json_loads_value e content) (\<lambda>response_data.
                and_then (files_of_document response_data) k) = Inr files"
    and k: "\<And>items. k items = Inr files \<Longrightarrow> \<exists>ds. dicts_of items = Inr ds"
  shows "tr' = tr @ [Http (Post_chat p) (http e tr (Post_chat p))]
         \<and> good_chat e (Http (Post_chat p) (http e tr (Post_chat p)))"
proof -
  from call have tr': "tr' = tr @ [Http (Post_chat p) (http e tr (Post_chat p))]"
    by (simp add: call_llm_eq)
  from call obtain body where r: "http e tr (Post_chat p) = Response 200 body"
    and c: "llm_message_content body = Inr content"
    by (cases "http e tr (Post_chat p)") (auto simp: call_llm_eq split: if_splits)
  from doc obtain response_data items where
    "json_loads_value e content = Inr response_data"
    "files_of_document response_data = Inr items" "k items = Inr files"
    by (auto simp: and_then_def split: sum.splits)
  moreover from k [OF this(3)] obtain ds where "dicts_of items = Inr ds" by blast
  ultimately have "document_entries e (Response 200 body) = Inr ds"
    using c by (simp add: document_entries_def and_then_def)
  with r tr' show ?thesis by (simp add: good_chat_def)
qed

lemma write_code_outcome:
  assumes "write_code_with_llm e brief checks attachments tr = (Inr files, tr')"
  shows "\<exists>ev. tr' = tr @ [ev] \<and> good_chat e ev"
proof -
  from assms obtain ctx lines content where
    call: "call_llm e (Initial_prompt brief lines ctx) tr = (Inr content, tr')"
    and doc: "and_then (json_loads_value e content) (\<lambda>response_data.
                and_then (files_of_document response_data) (\<lambda>files. filter_initial files []))
              = Inr files"
    by (auto simp: write_code_with_llm_def bind_def lift_def split: sum.splits prod.splits)
  have "\<exists>ds. dicts_of items = Inr ds" if "filter_initial items [] = Inr files" for items
    using that by (rule filter_initial_dicts)
  from adapter_entries [OF call doc this] show ?thesis by blast
qed

lemma update_code_outcome:
  assumes "update_code_with_llm e brief checks attachments repo existing tr = (Inr files, tr')"
  shows "\<exists>ev. tr' = tr @ [ev] \<and> good_chat e ev"
proof -
  from assms obtain ctx lines content where
    call: "call_llm e (Update_prompt brief lines ctx
             (map (\<lambda>ef. (ef_name ef, JStr (ef_content ef))) existing)) tr = (Inr content, tr')"
    and doc: "and_then (json_loads_value e content) (\<lambda>response_data.
                and_then (files_of_document response_data)
                  (\<lambda>files. filter_update (sha_map_of existing) files [])) = Inr files"
    by (auto simp: update_code_with_llm_def bind_def lift_def split: sum.splits prod.splits)
  have "\<exists>ds. dicts_of items = Inr ds"
    if "filter_update (sha_map_of existing) items [] = Inr files" for items
    using that by (rule filter_update_dicts)
  from adapter_entries [OF call doc this] show ?thesis by blast
qed

lemma query_good: "is_query ev \<Longrightarrow> good_chat e ev"
  by (cases ev) (auto simp: is_query_def good_chat_def split: request.splits)

lemma query_quiet: "is_query ev \<Longrightarrow> quiet ev"
  by (cases ev) (auto simp: is_query_def quiet_def split: request.splits)

lemma chat_quiet: "is_chat ev \<Longrightarrow> quiet ev"
  by (cases ev) (auto simp: is_chat_def quiet_def split: request.splits)

lemma not_chat_good: "\<not> is_chat ev \<Longrightarrow> good_chat e ev"
  by (cases ev) (auto simp: is_chat_def good_chat_def split: request.splits)

lemma only_queries_good: "only_queries tr \<Longrightarrow> good_chats e tr"
  by (simp add: only_queries_def good_chats_def list_all_iff query_good)

lemma only_queries_quiet: "only_queries tr \<Longrightarrow> list_all quiet tr"
  by (simp add: only_queries_def list_all_iff query_quiet)

lemma queries_triple:
  assumes "appends is_query m"
  shows "triple only_queries m (\<lambda>x. only_queries) (quiet_if_bad e)"
proof (rule triple_appends [OF assms yields_True])
  fix tr new
  assume "only_queries tr" and "list_all is_query new"
  then have "only_queries (tr @ new)" by (simp add: only_queries_def)
  then show "quiet_if_bad e (tr @ new)"
    by (simp add: quiet_if_bad_def only_queries_good)
next
  fix tr new and x :: 'a
  assume "only_queries tr" and "list_all is_query new"
  then show "only_queries (tr @ new)" by (simp add: only_queries_def)
qed

lemma after_generation_triple:
  assumes "appends (\<lambda>ev. \<not> is_chat ev) m"
  shows "triple (good_chats e) m (\<lambda>x. good_chats e) (quiet_if_bad e)"
proof (rule triple_appends [OF assms yields_True])
  fix tr new
  assume "good_chats e tr" and "list_all (\<lambda>ev. \<not> is_chat ev) new"
  then have "good_chats e (tr @ new)"
    by (auto simp: good_chats_def list_all_iff not_chat_good)
  then show "quiet_if_bad e (tr @ new)" by (simp add: quiet_if_bad_def)
next
  fix tr new and x :: 'a
  assume "good_chats e tr" and "list_all (\<lambda>ev. \<not> is_chat ev) new"
  then show "good_chats e (tr @ new)"
    by (auto simp: good_chats_def list_all_iff not_chat_good)
qed

lemma generation_triple:
  assumes chat: "appends is_chat m"
    and out: "\<And>tr files tr'. m tr = (Inr files, tr') \<Longrightarrow> \<exists>ev. tr' = tr @ [ev] \<and> good_chat e ev"
  shows "triple only_queries m (\<lambda>files. good_chats e) (quiet_if_bad e)"
proof (rule tripleI)
  fix tr err tr'
  assume q: "only_queries tr" and run: "m tr = (Inl err, tr')"
  from appendsD [OF chat, of tr] run obtain new where
    "tr' = tr @ new" and "list_all is_chat new" by auto
  with only_queries_quiet [OF q] have "list_all quiet tr'"
    by (auto simp: list_all_iff chat_quiet)
  then show "quiet_if_bad e tr'" by (simp add: quiet_if_bad_def)
next
  fix tr files tr'
  assume q: "only_queries tr" and run: "m tr = (Inr files, tr')"
  from out [OF run] obtain ev where "tr' = tr @ [ev]" and "good_chat e ev" by blast
  with only_queries_good [OF q, of e] show "good_chats e tr'"
    by (simp add: good_chats_def)
qed

lemma keep_queries:
  "triple only_queries (lift r) (\<lambda>x. only_queries) (quiet_if_bad e)"
  by (rule triple_lift) (simp_all add: quiet_if_bad_def only_queries_good)

lemma build_aborts_quietly:
  "triple only_queries (build_initial_application e data)
     (\<lambda>x. good_chats e) (quiet_if_bad e)"
  unfolding build_initial_application_def
  apply (rule triple_bind [where mid = "\<lambda>x. only_queries"], rule keep_queries)
  apply (rule triple_bind [where mid = "\<lambda>x. only_queries"], rule keep_queries)
  apply (rule triple_bind [where mid = "\<lambda>x. good_chats e"])
   apply (rule generation_triple)
    apply (rule appends_write_code_with_llm, simp add: is_chat_def)
   apply (erule write_code_outcome)
  apply (rule after_generation_triple)
  apply (intro appends_bind appends_create_github_repo appends_push_files
      appends_enable_github_pages appends_get_sha_of_latest_commit appends_notify_and_return)
        apply (simp_all add: is_chat_def)
  done

lemma revise_aborts_quietly:
  "triple only_queries (revise_existing_application e data)
     (\<lambda>x. good_chats e) (quiet_if_bad e)"
  unfolding revise_existing_application_def
  apply (rule triple_bind [where mid = "\<lambda>x. only_queries"], rule keep_queries)
  apply (rule triple_bind [where mid = "\<lambda>x. only_queries"])
   apply (rule queries_triple)
   apply (rule appends_fetch_existing, simp add: is_query_def)
  apply (rule triple_bind [where mid = "\<lambda>x. only_queries"], rule keep_queries)
  apply (rule triple_bind [where mid = "\<lambda>x. good_chats e"])
   apply (rule generation_triple)
    apply (rule appends_update_code_with_llm, simp add: is_chat_def)
   apply (erule update_code_outcome)
  apply (rule after_generation_triple)
  apply (intro appends_bind appends_push_files
      appends_get_sha_of_latest_commit appends_notify_and_return)
      apply (simp_all add: is_chat_def)
  done

lemma workflow_aborts_quietly:
  "triple only_queries (workflow e data) (\<lambda>x. good_chats e) (quiet_if_bad e)"
  unfolding workflow_def
  apply (rule triple_bind [where mid = "\<lambda>x. only_queries"])
   apply (rule queries_triple)
   apply (rule appends_select_path; simp add: is_query_def)
  subgoal for chosen
    apply (cases chosen)
     apply simp
     apply (rule triple_bind [where mid = "\<lambda>x. good_chats e"])
      apply (rule revise_aborts_quietly)
     apply (rule triple_ret, simp)
    apply simp
    apply (rule triple_bind [where mid = "\<lambda>x. good_chats e"])
     apply (rule build_aborts_quietly)
    apply (rule triple_ret, simp)
    done
  done

text \<open>
  C4, amended. When the answer of the generation service does not give the entries of a
  document (the call fails, the message is not JSON text, the document is not an object,
  its \<open>files\<close> cannot be iterated or hold an item that is not an object), the run ends in
  the logged failure, and its trace has no write and no notification: nothing was
  published. A document whose entries can be read is taken as it is, also when \<open>files\<close> is
  absent or a recognised file is missing.
\<close>

theorem unusable_document_aborts_before_any_write:
  "Http (Post_chat p) r \<in> set (snd (process_task_background e data [])) \<longrightarrow>
   document_entries e r = Inl err \<longrightarrow>
     (\<exists>err'. fst (process_task_background e data []) = Processing_failed err')
     \<and> list_all (\<lambda>ev. \<not> is_write ev \<and> \<not> is_notification ev)
          (snd (process_task_background e data []))"
proof (intro impI)
  let ?run = "process_task_background e data []"
  assume chat: "Http (Post_chat p) r \<in> set (snd ?run)" and bad: "document_entries e r = Inl err"
  from bad have "\<not> good_chat e (Http (Post_chat p) r)"
    by (simp add: good_chat_def)
  with chat have not_good: "\<not> good_chats e (snd ?run)"
    by (auto simp: good_chats_def list_all_iff)
  have start: "only_queries []" by (simp add: only_queries_def)
  obtain res tr where w: "workflow e data [] = (res, tr)"
    by (cases "workflow e data []")
  then have tr: "snd ?run = tr" by (simp add: snd_process_task_background)
  show "(\<exists>err'. fst ?run = Processing_failed err')
     \<and> list_all (\<lambda>ev. \<not> is_write ev \<and> \<not> is_notification ev) (snd ?run)"
  proof (cases res)
    case (Inl err')
    from tripleD_exc [OF workflow_aborts_quietly start] w Inl
    have "quiet_if_bad e tr" by blast
    with not_good tr have "list_all quiet tr" by (simp add: quiet_if_bad_def)
    moreover from w Inl have "fst ?run = Processing_failed err'"
      by (simp add: process_task_background_workflow)
    ultimately show ?thesis using tr by (auto simp: quiet_def list_all_iff)
  next
    case (Inr l)
    from tripleD_post [OF workflow_aborts_quietly start] w Inr
    have "good_chats e tr" by blast
    with not_good tr show ?thesis by simp
  qed
qed

theorem unusable_document_aborts_before_any_write_witness:
  "document_entries env_garbled (Response 200 (Some (chat_body ''DOC''))) = Inl JSONDecodeError
   \<and> process_task_background env_garbled task_full []
       = (Processing_failed JSONDecodeError,
          [Http (Get_repo (JStr ''demo'')) (Response 404 None),
           Http (Post_chat (Initial_prompt (JStr ''make a page'') [] []))
             (Response 200 (Some (chat_body ''DOC'')))])"
  using unusable_document_aborts_before_any_write
          [of "Initial_prompt (JStr ''make a page'') [] []" "Response 200 (Some (chat_body ''DOC''))"
              env_garbled task_full JSONDecodeError]
  by (simp add: env_garbled_def document_entries_def model_defs example_defs)

section \<open>Every update carries the token of the latest read\<close>

lemma token_of_read:
  "get_file_content_from_repo e repo p tr = (Inr (content, sha), tr1) \<Longrightarrow>
     tr1 = tr @ [Http (Get_contents repo p) (http e tr (Get_contents repo p))]
     \<and> token_of e (Http (Get_contents repo p) (http e tr (Get_contents repo p))) = Some sha"
  by (auto simp: get_file_content_from_repo_eq token_of_def split: http_result.splits)

lemma snd_read:
  "snd (get_file_content_from_repo e repo p tr)
     = tr @ [Http (Get_contents repo p) (http e tr (Get_contents repo p))]"
  by (simp add: get_file_content_from_repo_eq split: http_result.splits)

lemma put_ok_add:
  "put_ok e past (Http (Put_contents repo p (make_payload p round (JStr ''create'') sha source)) r)"
  by (simp add: put_ok_def make_payload_def)

lemma put_ok_other:
  "action \<noteq> JStr ''update'' \<Longrightarrow>
     put_ok e past (Http (Put_contents repo p (make_payload p round action sha source)) r)"
  by (simp add: put_ok_def make_payload_def)

lemma put_ok_update:
  "truthy sha \<Longrightarrow> latest_read e repo p past = Some sha \<Longrightarrow>
     put_ok e past (Http (Put_contents repo p (make_payload p round (JStr ''update'') sha source)) r)"
  by (simp add: put_ok_def make_payload_def)

lemma not_put_read: "\<not> is_put (Http (Get_contents repo p) r)"
  by (simp add: is_put_def)

lemma writes_ok_snoc:
  "writes_ok e [] tr \<Longrightarrow> put_ok e tr ev \<Longrightarrow> writes_ok e [] (tr @ [ev])"
  by (simp add: writes_ok_append)

lemma writes_ok_snoc2:
  "writes_ok e [] (tr @ [a]) \<Longrightarrow> put_ok e (tr @ [a]) b \<Longrightarrow> writes_ok e [] (tr @ [a, b])"
  using writes_ok_snoc [of e "tr @ [a]" b] by simp

lemma push_file_writes_ok:
  assumes ok: "writes_ok e [] tr"
    and cur: "action_of round f = JStr ''update'' \<longrightarrow> truthy (opt_get (f_sha f)) \<longrightarrow>
                latest_read e repo (f_name f) tr = Some (opt_get (f_sha f))"
  shows "writes_ok e [] (snd (push_file e repo round f tr))"
proof (cases "action_of round f = JStr ''update'' \<and> \<not> truthy (opt_get (f_sha f))")
  case False
  note step = push_file_direct [OF False, of e repo tr]
  show ?thesis
  proof (cases "action_of round f = JStr ''update''")
    case True
    with False cur have "truthy (opt_get (f_sha f))"
      and "latest_read e repo (f_name f) tr = Some (opt_get (f_sha f))" by auto
    then have "put_ok e tr (Http (Put_contents repo (f_name f)
        (make_payload (f_name f) round (action_of round f) (opt_get (f_sha f)) source)) r)"
      for source r
      unfolding True by (rule put_ok_update)
    with ok show ?thesis
      unfolding step
      by (auto simp: snd_send_after_put writes_ok_snoc split: sum.splits)
  next
    case other: False
    then have "put_ok e tr (Http (Put_contents repo (f_name f)
        (make_payload (f_name f) round (action_of round f) (opt_get (f_sha f)) source)) r)"
      for source r
      by (rule put_ok_other)
    with ok show ?thesis
      unfolding step
      by (auto simp: snd_send_after_put writes_ok_snoc split: sum.splits)
  qed
next
  case True
  then have upd: "action_of round f = JStr ''update''"
    and none: "\<not> truthy (opt_get (f_sha f))" by simp_all
  note step = push_file_reread [OF upd none, of e repo tr]
  let ?ev = "Http (Get_contents repo (f_name f)) (http e tr (Get_contents repo (f_name f)))"
  have ok1: "writes_ok e [] (tr @ [?ev])"
    using ok by (simp add: writes_ok_snoc put_ok_not_put not_put_read)
  show ?thesis
  proof (cases "get_file_content_from_repo e repo (f_name f) tr")
    case (Pair res tr1)
    from snd_read [of e repo "f_name f" tr] Pair have tr1: "tr1 = tr @ [?ev]" by simp
    show ?thesis
    proof (cases res)
      case (Inl err)
      with Pair tr1 ok1 show ?thesis unfolding step by simp
    next
      case (Inr read)
      obtain current_content current_sha where read: "read = (current_content, current_sha)"
        by (cases read)
      from token_of_read [of e repo "f_name f" tr current_content current_sha tr1] Pair Inr read
      have tok: "token_of e ?ev = Some current_sha" by simp
      have latest: "latest_read e repo (f_name f) (tr @ [?ev]) = Some current_sha"
        using tok by (simp add: latest_read_snoc is_read_of_def)
      have upd_ok: "truthy current_sha \<Longrightarrow>
          put_ok e (tr @ [?ev]) (Http (Put_contents repo (f_name f)
             (make_payload (f_name f) round (JStr ''update'') current_sha source)) r)"
        for source r
        using latest by (simp add: put_ok_update)
      have add_ok: "put_ok e (tr @ [?ev]) (Http (Put_contents repo (f_name f)
             (make_payload (f_name f) round (JStr ''create'') (opt_get (f_sha f)) source)) r)"
        for source r
        by (rule put_ok_add)
      from Pair Inr read tr1 ok1 upd_ok add_ok show ?thesis
        unfolding step
        by (auto simp: snd_send_after_put writes_ok_snoc2 split: sum.splits)
    qed
  qed
qed

lemma not_read_put: "\<not> is_read_of repo p (Http (Put_contents repo' p' pl) r)"
  by (simp add: is_read_of_def)

lemma push_file_keeps_latest:
  assumes "p \<noteq> f_name f \<or> \<not> (action_of round f = JStr ''update'' \<and> \<not> truthy (opt_get (f_sha f)))"
  shows "latest_read e repo p (snd (push_file e repo round f tr)) = latest_read e repo p tr"
proof (cases "p = f_name f")
  case False
  have "appends (\<lambda>ev. \<not> is_read_of repo p ev) (push_file e repo round f)"
    by (rule appends_push_file) (use False in \<open>simp_all add: is_read_of_def\<close>)
  from appendsD [OF this, of tr] show ?thesis
    by (auto simp: latest_read_append_others)
next
  case True
  with assms have direct: "\<not> (action_of round f = JStr ''update'' \<and> \<not> truthy (opt_get (f_sha f)))"
    by simp
  show ?thesis
    unfolding push_file_direct [OF direct, of e repo tr]
    by (auto simp: snd_send_after_put latest_read_snoc not_read_put split: sum.splits)
qed

lemma snd_bind_ret: "snd (bind m (\<lambda>x. ret (g x)) tr) = snd (m tr)"
  by (cases "m tr") (auto simp: bind_def ret_def split: sum.splits)

lemma push_files_writes_ok:
  assumes "writes_ok e [] tr" and "tokens_current e repo round files tr"
    and "tokens_agree round files"
  shows "writes_ok e [] (snd (push_files_to_repo e repo files round tr))"
  using assms
proof (induction files arbitrary: tr)
  case Nil
  then show ?case by (simp add: ret_def)
next
  case (Cons f fs)
  obtain res tr1 where step: "push_file e repo round f tr = (res, tr1)"
    by (cases "push_file e repo round f tr")
  have cur_f: "action_of round f = JStr ''update'' \<longrightarrow> truthy (opt_get (f_sha f)) \<longrightarrow>
                latest_read e repo (f_name f) tr = Some (opt_get (f_sha f))"
    using Cons.prems(2) unfolding tokens_current_def by (meson list.set_intros(1))
  have ok1: "writes_ok e [] tr1"
    using push_file_writes_ok [OF Cons.prems(1) cur_f] step by simp
  have agree: "tokens_agree round fs"
    using Cons.prems(3) unfolding tokens_agree_def by (meson list.set_intros(2))
  have cur1: "tokens_current e repo round fs tr1"
    unfolding tokens_current_def
  proof (intro ballI impI)
    fix g
    assume g: "g \<in> set fs" and upd: "action_of round g = JStr ''update''"
      and tok: "truthy (opt_get (f_sha g))"
    from Cons.prems(2) g upd tok
    have before: "latest_read e repo (f_name g) tr = Some (opt_get (f_sha g))"
      unfolding tokens_current_def by (meson list.set_intros(2))
    have "f_name g \<noteq> f_name f
            \<or> \<not> (action_of round f = JStr ''update'' \<and> \<not> truthy (opt_get (f_sha f)))"
    proof (cases "f_name g = f_name f \<and> action_of round f = JStr ''update''")
      case True
      moreover have "f \<in> set (f # fs)" and "g \<in> set (f # fs)"
        using g by simp_all
      ultimately have "opt_get (f_sha f) = opt_get (f_sha g)"
        using Cons.prems(3) upd unfolding tokens_agree_def by metis
      with tok show ?thesis by simp
    next
      case False
      then show ?thesis by blast
    qed
    from push_file_keeps_latest [OF this, of e repo tr] before step
    show "latest_read e repo (f_name g) tr1 = Some (opt_get (f_sha g))" by simp
  qed
  show ?case
  proof (cases res)
    case (Inl err)
    with step ok1 show ?thesis by (simp add: bind_def)
  next
    case (Inr f')
    from Cons.IH [OF ok1 cur1 agree]
    have "writes_ok e [] (snd (push_files_to_repo e repo fs round tr1))" .
    with step Inr show ?thesis
      using snd_bind_ret [of "push_files_to_repo e repo fs round" "\<lambda>fs'. f' # fs'" tr1]
      by (simp add: bind_def)
  qed
qed

lemma triple_no_puts:
  assumes "appends (\<lambda>ev. \<not> is_put ev) m"
  shows "triple (writes_ok e []) m (\<lambda>x. writes_ok e []) (writes_ok e [])"
  by (rule triple_appends [OF assms yields_True]) (simp_all add: writes_ok_extend)

lemma fetch_existing_current:
  assumes run: "fetch_existing e repo [''index.html'', ''README.md''] [] tr = (Inr existing, tr1)"
  shows "existing_current e repo existing tr1"
proof -
  let ?a = "JStr ''index.html''" and ?b = "JStr ''README.md''"
  obtain r1 t1 where read1: "get_file_content_from_repo e repo ?a tr = (r1, t1)"
    by (cases "get_file_content_from_repo e repo ?a tr")
  obtain r2 t2 where read2: "get_file_content_from_repo e repo ?b t1 = (r2, t2)"
    by (cases "get_file_content_from_repo e repo ?b t1")
  from run read1 obtain c1 s1 where r1: "r1 = Inr (c1, s1)"
    unfolding fetch_existing_two by (cases r1) auto
  from run read1 read2 r1 obtain c2 s2 where r2: "r2 = Inr (c2, s2)"
    unfolding fetch_existing_two by (cases r2) (auto split: if_splits)
  let ?ev1 = "Http (Get_contents repo ?a) (http e tr (Get_contents repo ?a))"
  let ?ev2 = "Http (Get_contents repo ?b) (http e t1 (Get_contents repo ?b))"
  from token_of_read [of e repo ?a tr c1 s1 t1] read1 r1
  have t1: "t1 = tr @ [?ev1]" and tok1: "token_of e ?ev1 = Some s1" by simp_all
  from token_of_read [of e repo ?b t1 c2 s2 t2] read2 r2
  have t2: "t2 = t1 @ [?ev2]" and tok2: "token_of e ?ev2 = Some s2" by simp_all
  have "latest_read e repo ?a t2 = latest_read e repo ?a t1"
    unfolding t2 by (subst latest_read_snoc) (simp add: is_read_of_def)
  also have "\<dots> = Some s1"
    unfolding t1 using tok1 by (subst latest_read_snoc) (simp add: is_read_of_def)
  finally have la: "latest_read e repo ?a t2 = Some s1" .
  have lb: "latest_read e repo ?b t2 = Some s2"
    unfolding t2 using tok2 by (subst latest_read_snoc) (simp add: is_read_of_def)
  from run read1 read2 r1 r2 have tr1: "tr1 = t2"
    and ex: "existing = (if c1 \<noteq> [] then [\<lparr>ef_name = ?a, ef_content = c1, ef_sha = s1\<rparr>] else [])
                     @ (if c2 \<noteq> [] then [\<lparr>ef_name = ?b, ef_content = c2, ef_sha = s2\<rparr>] else [])"
    unfolding fetch_existing_two by (auto split: if_splits)
  show ?thesis
    unfolding existing_current_def tr1 ex using la lb by auto
qed

lemma fetch_existing_triple:
  "triple (writes_ok e []) (fetch_existing e repo [''index.html'', ''README.md''] [])
     (\<lambda>existing tr. writes_ok e [] tr \<and> existing_current e repo existing tr) (writes_ok e [])"
proof (rule tripleI)
  fix tr err tr'
  assume ok: "writes_ok e [] tr"
    and run: "fetch_existing e repo [''index.html'', ''README.md''] [] tr = (Inl err, tr')"
  have "appends (\<lambda>ev. \<not> is_put ev) (fetch_existing e repo [''index.html'', ''README.md''] [])"
    by (rule appends_fetch_existing) (simp add: is_put_def)
  from appendsD [OF this, of tr] run ok show "writes_ok e [] tr'"
    by (auto simp: writes_ok_extend)
next
  fix tr existing tr'
  assume ok: "writes_ok e [] tr"
    and run: "fetch_existing e repo [''index.html'', ''README.md''] [] tr = (Inr existing, tr')"
  have "appends (\<lambda>ev. \<not> is_put ev) (fetch_existing e repo [''index.html'', ''README.md''] [])"
    by (rule appends_fetch_existing) (simp add: is_put_def)
  from appendsD [OF this, of tr] run ok have "writes_ok e [] tr'"
    by (auto simp: writes_ok_extend)
  with fetch_existing_current [OF run]
  show "writes_ok e [] tr' \<and> existing_current e repo existing tr'" by simp
qed

lemma chat_not_put: "is_chat ev \<Longrightarrow> \<not> is_put ev"
  by (cases ev) (auto simp: is_chat_def is_put_def split: request.splits)

lemma chat_not_read: "is_chat ev \<Longrightarrow> \<not> is_read_of repo p ev"
  by (cases ev) (auto simp: is_chat_def is_read_of_def split: request.splits)

lemma existing_current_chat:
  assumes "existing_current e repo existing tr" and "list_all is_chat new"
  shows "existing_current e repo existing (tr @ new)"
proof -
  have "list_all (\<lambda>ev. \<not> is_read_of repo p ev) new" for p
    using assms(2) by (simp add: list_all_iff chat_not_read)
  from latest_read_append_others [OF this] assms(1) show ?thesis
    by (simp add: existing_current_def)
qed

lemma writes_ok_chat:
  assumes "writes_ok e [] tr" and "list_all is_chat new"
  shows "writes_ok e [] (tr @ new)"
proof -
  have "list_all (\<lambda>ev. \<not> is_put ev) new"
    using assms(2) by (simp add: list_all_iff chat_not_put)
  with assms(1) show ?thesis by (rule writes_ok_extend)
qed

lemma update_code_triple:
  "triple (\<lambda>tr. writes_ok e [] tr \<and> existing_current e repo existing tr)
     (update_code_with_llm e brief checks attachments repo existing)
     (\<lambda>files tr. writes_ok e [] tr \<and> existing_current e repo existing tr
                  \<and> from_context existing files)
     (writes_ok e [])"
proof (rule triple_appends [where P = is_chat
      and Q = "\<lambda>files. \<forall>f \<in> set files.
                 recognised (f_name f) \<and> (\<exists>d. f = update_entry (sha_map_of existing) d)"])
  show "appends is_chat (update_code_with_llm e brief checks attachments repo existing)"
    by (rule appends_update_code_with_llm) (simp add: is_chat_def)
  show "yields (\<lambda>files. \<forall>f \<in> set files.
                 recognised (f_name f) \<and> (\<exists>d. f = update_entry (sha_map_of existing) d))
          (update_code_with_llm e brief checks attachments repo existing)"
    by (rule yields_update_code_with_llm)
qed (auto simp: writes_ok_chat existing_current_chat from_context_def)

lemma from_context_tokens:
  assumes cur: "existing_current e repo existing tr" and ctx: "from_context existing files"
  shows "map (ensure_sha existing) files = files"
    and "tokens_current e repo round files tr"
    and "tokens_agree round files"
proof -
  show "map (ensure_sha existing) files = files"
    using ctx unfolding from_context_def
    by (intro map_idI) (metis ensure_sha_update_entry)
  show "tokens_current e repo round files tr"
    unfolding tokens_current_def
  proof (intro ballI impI)
    fix f
    assume f: "f \<in> set files" and upd: "action_of round f = JStr ''update''"
      and tok: "truthy (opt_get (f_sha f))"
    from ctx f obtain d where d: "f = update_entry (sha_map_of existing) d"
      unfolding from_context_def by blast
    from tok obtain s where s: "f_sha f = Some s"
      by (cases "f_sha f") (simp_all add: opt_get_def)
    with d have "sha_map_of existing (f_name f) = Some s"
      by (simp add: update_entry_def Let_def split: if_splits)
    from sha_map_of_Some [OF this] cur
    have "latest_read e repo (f_name f) tr = Some s"
      unfolding existing_current_def by metis
    with s show "latest_read e repo (f_name f) tr = Some (opt_get (f_sha f))"
      by (simp add: opt_get_def)
  qed
  show "tokens_agree round files"
    unfolding tokens_agree_def
  proof (intro ballI impI)
    fix f g
    assume f: "f \<in> set files" and g: "g \<in> set files" and same: "f_name f = f_name g"
      and uf: "action_of round f = JStr ''update''" and ug: "action_of round g = JStr ''update''"
    from ctx f obtain d where d: "f = update_entry (sha_map_of existing) d"
      unfolding from_context_def by blast
    from ctx g obtain d' where d': "g = update_entry (sha_map_of existing) d'"
      unfolding from_context_def by blast
    from d uf have "f_sha f = sha_map_of existing (f_name f)"
      by (simp add: update_entry_def Let_def action_of_def)
    moreover from d' ug have "f_sha g = sha_map_of existing (f_name g)"
      by (simp add: update_entry_def Let_def action_of_def)
    ultimately show "opt_get (f_sha f) = opt_get (f_sha g)"
      using same by simp
  qed
qed

lemma push_context_triple:
  "triple (\<lambda>tr. writes_ok e [] tr \<and> existing_current e repo existing tr
                \<and> from_context existing files)
     (push_files_to_repo e repo (map (ensure_sha existing) files) round)
     (\<lambda>x. writes_ok e []) (writes_ok e [])"
proof -
  have "writes_ok e [] (snd (push_files_to_repo e repo (map (ensure_sha existing) files) round tr))"
    if "writes_ok e [] tr" "existing_current e repo existing tr" "from_context existing files"
    for tr
    using push_files_writes_ok [OF that(1) from_context_tokens(2,3) [OF that(2,3)]]
      from_context_tokens(1) [OF that(2,3)]
    by simp
  then show ?thesis
    by (intro tripleI) (metis snd_conv)+
qed

lemma triple_keep:
  "triple (\<lambda>tr. pre tr) (lift r) (\<lambda>x tr. pre tr) (writes_ok e [])"
  if "\<And>tr. pre tr \<Longrightarrow> writes_ok e [] tr"
  by (rule triple_lift) (simp_all add: that)

lemma notify_no_puts:
  "appends (\<lambda>ev. \<not> is_put ev)
     (bind (get_sha_of_latest_commit e repo) (notify_and_return e data repo))"
  by (intro appends_bind appends_get_sha_of_latest_commit appends_notify_and_return)
     (simp_all add: is_put_def)

lemma revise_writes_ok:
  "triple (writes_ok e []) (revise_existing_application e data)
     (\<lambda>x. writes_ok e []) (writes_ok e [])"
  unfolding revise_existing_application_def
  apply (rule triple_bind [where mid = "\<lambda>x. writes_ok e []"])
   apply (rule triple_lift; simp)
  subgoal for repo
    apply (rule triple_bind [where mid = "\<lambda>existing tr.
             writes_ok e [] tr \<and> existing_current e repo existing tr"])
     apply (rule fetch_existing_triple)
    subgoal for existing
      apply (rule triple_bind [where mid = "\<lambda>x tr.
               writes_ok e [] tr \<and> existing_current e repo existing tr"])
       apply (rule triple_lift; simp)
      subgoal for brief
        apply (rule triple_bind [where mid = "\<lambda>files tr.
                 writes_ok e [] tr \<and> existing_current e repo existing tr
                 \<and> from_context existing files"])
         apply (rule update_code_triple)
        subgoal for files
          apply (rule triple_bind [where mid = "\<lambda>x. writes_ok e []"])
           apply (rule push_context_triple)
          apply (rule triple_no_puts)
          apply (rule notify_no_puts)
          done
        done
      done
    done
  done

lemma created_tokens:
  assumes "\<forall>f \<in> set files. recognised (f_name f) \<and> f_action f = None"
  shows "tokens_current e repo (JNum 1) files tr" and "tokens_agree (JNum 1) files"
  using assms by (auto simp: tokens_current_def tokens_agree_def action_of_def)

lemma push_created_triple:
  "triple (\<lambda>tr. writes_ok e [] tr \<and> (\<forall>f \<in> set files. recognised (f_name f) \<and> f_action f = None))
     (push_files_to_repo e repo files (JNum 1))
     (\<lambda>x. writes_ok e []) (writes_ok e [])"
proof -
  have "writes_ok e [] (snd (push_files_to_repo e repo files (JNum 1) tr))"
    if "writes_ok e [] tr" "\<forall>f \<in> set files. recognised (f_name f) \<and> f_action f = None"
    for tr
    by (rule push_files_writes_ok [OF that(1) created_tokens [OF that(2)]])
  then show ?thesis
    by (intro tripleI) (metis snd_conv)+
qed

lemma build_writes_ok:
  "triple (writes_ok e []) (build_initial_application e data)
     (\<lambda>x. writes_ok e []) (writes_ok e [])"
  unfolding build_initial_application_def
  apply (rule triple_bind [where mid = "\<lambda>x. writes_ok e []"])
   apply (rule triple_lift; simp)
  subgoal for repo
    apply (rule triple_bind [where mid = "\<lambda>x. writes_ok e []"])
     apply (rule triple_lift; simp)
    subgoal for brief
      apply (rule triple_bind [where mid = "\<lambda>files tr. writes_ok e [] tr
               \<and> (\<forall>f \<in> set files. recognised (f_name f) \<and> f_action f = None)"])
       apply (rule triple_appends [where P = "\<lambda>ev. \<not> is_put ev"
                and Q = "\<lambda>files. \<forall>f \<in> set files. recognised (f_name f) \<and> f_action f = None"])
          apply (rule appends_write_code_with_llm, simp add: is_put_def)
         apply (rule yields_write_code_with_llm)
        apply (simp add: writes_ok_extend)
       apply (simp add: writes_ok_extend)
      subgoal for files
        apply (rule triple_bind [where mid = "\<lambda>x tr. writes_ok e [] tr
                 \<and> (\<forall>f \<in> set files. recognised (f_name f) \<and> f_action f = None)"])
         apply (rule triple_appends [where P = "\<lambda>ev. \<not> is_put ev" and Q = "\<lambda>x. True"])
            apply (rule appends_create_github_repo, simp add: is_put_def)
           apply (rule yields_True)
          apply (simp add: writes_ok_extend)
         apply (simp add: writes_ok_extend)
        apply (rule triple_bind [where mid = "\<lambda>x. writes_ok e []"])
         apply (rule push_created_triple)
        apply (rule triple_no_puts)
        apply (intro appends_bind appends_enable_github_pages appends_get_sha_of_latest_commit
            appends_notify_and_return)
           apply (simp_all add: is_put_def)
        done
      done
    done
  done

lemma workflow_writes_ok:
  "triple (writes_ok e []) (workflow e data) (\<lambda>x. writes_ok e []) (writes_ok e [])"
  unfolding workflow_def
  apply (rule triple_bind [where mid = "\<lambda>x. writes_ok e []"])
   apply (rule triple_no_puts)
   apply (rule appends_select_path; simp add: is_put_def)
  subgoal for chosen
    apply (cases chosen)
     apply simp
     apply (rule triple_bind [where mid = "\<lambda>x. writes_ok e []"])
      apply (rule revise_writes_ok)
     apply (rule triple_ret, simp)
    apply simp
    apply (rule triple_bind [where mid = "\<lambda>x. writes_ok e []"])
     apply (rule build_writes_ok)
    apply (rule triple_ret, simp)
    done
  done

lemma run_writes_ok: "writes_ok e [] (snd (process_task_background e data []))"
proof (cases "workflow e data []")
  case (Pair res tr)
  have start: "writes_ok e [] []" by simp
  show ?thesis
  proof (cases res)
    case (Inl err)
    from tripleD_exc [OF workflow_writes_ok start] Pair Inl
    show ?thesis by (simp add: snd_process_task_background)
  next
    case (Inr l)
    from tripleD_post [OF workflow_writes_ok start] Pair Inr
    show ?thesis by (simp add: snd_process_task_background)
  qed
qed

text \<open>
  C2. In the trace of a run, take any write of a file. Its message says Update exactly when
  its payload carries a token; and a token it carries is not empty and is the token that
  the latest read of that file, among the reads made before the write, returned.
\<close>

theorem update_writes_carry_latest_token:
  "i < length (snd (process_task_background e data [])) \<longrightarrow>
   snd (process_task_background e data []) ! i = Http (Put_contents repo p pl) r \<longrightarrow>
     (message_verb pl = Update \<longleftrightarrow> payload_sha pl \<noteq> None)
     \<and> (\<forall>s. payload_sha pl = Some s \<longrightarrow>
           truthy s
           \<and> latest_read e repo p (take i (snd (process_task_background e data []))) = Some s)"
proof (intro impI)
  let ?tr = "snd (process_task_background e data [])"
  assume i: "i < length ?tr" and ev: "?tr ! i = Http (Put_contents repo p pl) r"
  from writes_ok_nth [OF run_writes_ok [of e data] i] ev
  have "put_ok e (take i ?tr) (Http (Put_contents repo p pl) r)" by simp
  then show "(message_verb pl = Update \<longleftrightarrow> payload_sha pl \<noteq> None)
     \<and> (\<forall>s. payload_sha pl = Some s \<longrightarrow>
           truthy s \<and> latest_read e repo p (take i ?tr) = Some s)"
    by (cases "payload_sha pl") (simp_all add: put_ok_def)
qed

theorem update_writes_carry_latest_token_witness:
  "6 < length (snd (process_task_background env_complete task_full []))
   \<and> snd (process_task_background env_complete task_full []) ! 6 = put_index
   \<and> truthy (JStr ''1111111'')
   \<and> latest_read env_complete (JStr ''demo'') (JStr ''index.html'')
        (take 6 (snd (process_task_background env_complete task_full [])))
      = Some (JStr ''1111111'')"
proof -
  have len: "6 < length (snd (process_task_background env_complete task_full []))"
    by (simp add: run_complete trace_classified_eq)
  have ev: "snd (process_task_background env_complete task_full []) ! 6
      = Http (Put_contents (JStr ''demo'') (JStr ''index.html'')
             \<lparr>message_verb = Update, message_file = JStr ''index.html'',
              message_round = JNum 2, payload_content = ''<h1>hi</h1>'',
              payload_sha = Some (JStr ''1111111'')\<rparr>)
          (Response 200 (Some (JObj [(''content'', JObj [(''sha'', JStr ''f00dfeed'')])])))"
    by (simp add: run_complete trace_classified_eq put_index_def)
  from update_writes_carry_latest_token [of 6 env_complete task_full] len ev
  have "truthy (JStr ''1111111'')
        \<and> latest_read env_complete (JStr ''demo'') (JStr ''index.html'')
             (take 6 (snd (process_task_background env_complete task_full [])))
           = Some (JStr ''1111111'')"
    by simp
  with len ev show ?thesis by (simp add: put_index_def)
qed

section \<open>Only the two recognised files are kept and written\<close>












section \<open>Notifier: bounded retry with backoff\<close>

lemma post_attempt_eq:
  "post_attempt e url payload tr
     = (Inr (accepted (http e tr (Post_evaluation url payload))),
        tr @ [Http (Post_evaluation url payload) (http e tr (Post_evaluation url payload))])"
  by (cases "http e tr (Post_evaluation url payload)")
     (simp_all add: post_attempt_def send_def accepted_def)

lemma ping_loop_shape:
  "\<exists>rs. ping_loop e url payload attempt n tr
           = (Inr (delivered rs), tr @ attempts_trace url payload attempt rs)
        \<and> length rs \<le> n
        \<and> (\<forall>r \<in> set (butlast rs). \<not> accepted r)
        \<and> (\<not> delivered rs \<longrightarrow> length rs = n \<and> (\<forall>r \<in> set rs. \<not> accepted r))"
proof (induction n arbitrary: attempt tr)
  case 0
  have "ping_loop e url payload attempt 0 tr
          = (Inr (delivered []), tr @ attempts_trace url payload attempt [])"
    by (simp add: ret_def delivered_def)
  then show ?case by (intro exI [of _ "[]"]) (simp add: delivered_def)
next
  case (Suc n)
  let ?r = "http e tr (Post_evaluation url payload)"
  let ?tr1 = "tr @ [Http (Post_evaluation url payload) ?r]"
  show ?case
  proof (cases "accepted ?r")
    case True
    then have "ping_loop e url payload attempt (Suc n) tr
                 = (Inr (delivered [?r]), tr @ attempts_trace url payload attempt [?r])"
      by (simp add: bind_def post_attempt_eq ret_def delivered_def)
    then show ?thesis
      using True by (intro exI [of _ "[?r]"]) (simp add: delivered_def)
  next
    case False
    let ?tr2 = "?tr1 @ [Sleep (2 ^ attempt)]"
    from Suc.IH [of "Suc attempt" ?tr2] obtain rs where
      run: "ping_loop e url payload (Suc attempt) n ?tr2
              = (Inr (delivered rs), ?tr2 @ attempts_trace url payload (Suc attempt) rs)"
      and len: "length rs \<le> n"
      and first: "\<forall>r \<in> set (butlast rs). \<not> accepted r"
      and none: "\<not> delivered rs \<longrightarrow> length rs = n \<and> (\<forall>r \<in> set rs. \<not> accepted r)"
      by blast
    have d: "delivered (?r # rs) = delivered rs"
      using False by (cases rs) (simp_all add: delivered_def)
    have "ping_loop e url payload attempt (Suc n) tr
            = (Inr (delivered (?r # rs)), tr @ attempts_trace url payload attempt (?r # rs))"
      using False run by (simp add: bind_def post_attempt_eq sleep_def d)
    moreover have "length (?r # rs) \<le> Suc n"
      using len by simp
    moreover have "\<forall>r \<in> set (butlast (?r # rs)). \<not> accepted r"
      using False first by (cases rs) simp_all
    moreover have "\<not> delivered (?r # rs) \<longrightarrow>
        length (?r # rs) = Suc n \<and> (\<forall>r \<in> set (?r # rs). \<not> accepted r)"
      using False none d by simp
    ultimately show ?thesis by blast
  qed
qed

text \<open>
  C5. \<open>ping_evaluation_server\<close> never raises. The attempts it makes got the answers
  \<open>rs\<close>, at most \<open>max_retries\<close> of them; an answer 200, 201 or 202 is a success, any
  other answer and any exception is a failure; every failed attempt \<open>i\<close> (from 0) is
  followed by a wait of \<open>2 ^ i\<close>; the first success ends the call with \<open>True\<close>, and the
  call returns \<open>False\<close> only after exactly \<open>max_retries\<close> failed attempts.
\<close>

theorem ping_evaluation_server_attempts:
  "\<exists>rs. ping_evaluation_server e url payload max_retries tr
           = (Inr (delivered rs), tr @ attempts_trace url payload 0 rs)
        \<and> length rs \<le> nat max_retries
        \<and> (\<forall>r \<in> set (butlast rs). \<not> accepted r)
        \<and> (\<not> delivered rs \<longrightarrow> length rs = nat max_retries \<and> (\<forall>r \<in> set rs. \<not> accepted r))"
  unfolding ping_evaluation_server_def by (rule ping_loop_shape)

lemma ping_down:
  "ping_evaluation_server env_down (JStr ''http://eval'') report 3 []
     = (Inr False,
        [Http (Post_evaluation (JStr ''http://eval'') report) Conn_err, Sleep 1,
         Http (Post_evaluation (JStr ''http://eval'') report) Conn_err, Sleep 2,
         Http (Post_evaluation (JStr ''http://eval'') report) (Response 500 None), Sleep 4])"
  by (simp add: ping_evaluation_server_def env_down_def numeral_3_eq_3 bind_def ret_def
      post_attempt_eq accepted_def sleep_def)

lemma ping_third:
  "ping_evaluation_server env_third (JStr ''http://eval'') report 3 []
     = (Inr True,
        [Http (Post_evaluation (JStr ''http://eval'') report) (Response 503 None), Sleep 1,
         Http (Post_evaluation (JStr ''http://eval'') report) (Response 503 None), Sleep 2,
         Http (Post_evaluation (JStr ''http://eval'') report) (Response 202 None)])"
  by (simp add: ping_evaluation_server_def env_third_def numeral_3_eq_3 bind_def ret_def
      post_attempt_eq accepted_def sleep_def)

theorem ping_evaluation_server_attempts_witness:
  "(\<exists>rs. length rs = 3 \<and> \<not> delivered rs
      \<and> ping_evaluation_server env_down (JStr ''http://eval'') report 3 []
            = (Inr False, attempts_trace (JStr ''http://eval'') report 0 rs))
   \<and> ping_evaluation_server env_third (JStr ''http://eval'') report 3 []
       = (Inr True,
          [Http (Post_evaluation (JStr ''http://eval'') report) (Response 503 None), Sleep 1,
           Http (Post_evaluation (JStr ''http://eval'') report) (Response 503 None), Sleep 2,
           Http (Post_evaluation (JStr ''http://eval'') report) (Response 202 None)])"
proof -
  from ping_evaluation_server_attempts [of env_down "JStr ''http://eval''" report 3 "[]"]
  obtain rs where
    run: "ping_evaluation_server env_down (JStr ''http://eval'') report 3 []
            = (Inr (delivered rs), [] @ attempts_trace (JStr ''http://eval'') report 0 rs)"
    and none: "\<not> delivered rs \<longrightarrow> length rs = nat 3 \<and> (\<forall>r \<in> set rs. \<not> accepted r)"
    by blast
  from run ping_down have no: "\<not> delivered rs" by simp
  with none have "length rs = 3" by simp
  with no run show ?thesis using ping_third by auto
qed

section \<open>Reading a file\<close>

text \<open>
  C6, as stated, fails: the remote answers 401 to the read, and the function returns the
  empty result (empty content, no token) instead of raising.
\<close>

theorem get_file_content_from_repo_unauthorized:
  "get_file_content_from_repo env_unauthorized (JStr ''demo'') (JStr ''index.html'') []
     = (Inr ([], JNull),
        [Http (Get_contents (JStr ''demo'') (JStr ''index.html''))
           (Response 401 (Some (JObj [(''message'', JStr ''Bad credentials'')])))])"
  by (simp add: get_file_content_from_repo_eq env_unauthorized_def file_of_response_def)

lemma read_200_not_json:
  "http e tr (Get_contents repo p) = Response 200 None \<Longrightarrow>
     fst (get_file_content_from_repo e repo p tr) = Inl JSONDecodeError"
  by (simp add: get_file_content_from_repo_eq file_of_response_def response_json_def)

lemma read_200_not_object:
  "http e tr (Get_contents repo p) = Response 200 (Some j) \<Longrightarrow> \<forall>d. j \<noteq> JObj d \<Longrightarrow>
     fst (get_file_content_from_repo e repo p tr) = Inl AttributeError"
  by (cases j) (simp_all add: get_file_content_from_repo_eq file_of_response_def response_json_def)

lemma read_200_object:
  assumes "http e tr (Get_contents repo p) = Response 200 (Some (JObj d))"
  shows "fst (get_file_content_from_repo e repo p tr) =
           (if \<not> truthy (dict_get d ''content'') then Inr ([], dict_get d ''sha'')
            else (case dict_get d ''content'' of
                    JStr s \<Rightarrow> (case b64decode_utf8 e s of
                                None \<Rightarrow> Inl DecodeError
                              | Some t \<Rightarrow> Inr (t, dict_get d ''sha''))
                  | _ \<Rightarrow> Inl TypeError))"
  using assms
  by (simp add: get_file_content_from_repo_eq file_of_response_def response_json_def)

text \<open>
  C6, amended. The function makes one request. When the HTTP client raises (no answer at
  all), the error propagates unmodified. Every answer whose status is not 200, a missing
  file and a rejected credential alike, gives the empty result. An answer 200 raises when
  its body cannot be used: it is not JSON, it is not an object, or its content is not the
  base64 text of a UTF-8 string. Otherwise an answer 200 gives the decoded content, empty
  when the body has no content, together with the \<open>sha\<close> of the body. These are all the cases,
  so the function raises on a transport failure and on an unusable answer 200 only.
\<close>

theorem get_file_content_from_repo_outcomes:
  "snd (get_file_content_from_repo e repo p tr)
     = tr @ [Http (Get_contents repo p) (http e tr (Get_contents repo p))]
   \<and> (http e tr (Get_contents repo p) = Conn_err \<longrightarrow>
        fst (get_file_content_from_repo e repo p tr) = Inl ConnectionError)
   \<and> (\<forall>st body. http e tr (Get_contents repo p) = Response st body \<longrightarrow> st \<noteq> 200 \<longrightarrow>
        fst (get_file_content_from_repo e repo p tr) = Inr ([], JNull))
   \<and> (http e tr (Get_contents repo p) = Response 200 None \<longrightarrow>
        fst (get_file_content_from_repo e repo p tr) = Inl JSONDecodeError)
   \<and> (\<forall>j. http e tr (Get_contents repo p) = Response 200 (Some j) \<longrightarrow> (\<forall>d. j \<noteq> JObj d) \<longrightarrow>
        fst (get_file_content_from_repo e repo p tr) = Inl AttributeError)
   \<and> (\<forall>d. http e tr (Get_contents repo p) = Response 200 (Some (JObj d)) \<longrightarrow>
        (\<not> truthy (dict_get d ''content'') \<longrightarrow>
           fst (get_file_content_from_repo e repo p tr) = Inr ([], dict_get d ''sha''))
        \<and> (truthy (dict_get d ''content'') \<longrightarrow> (\<forall>s. dict_get d ''content'' \<noteq> JStr s) \<longrightarrow>
           fst (get_file_content_from_repo e repo p tr) = Inl TypeError)
        \<and> (\<forall>s. dict_get d ''content'' = JStr s \<longrightarrow> s \<noteq> [] \<longrightarrow> b64decode_utf8 e s = None \<longrightarrow>
           fst (get_file_content_from_repo e repo p tr) = Inl DecodeError)
        \<and> (\<forall>s t. dict_get d ''content'' = JStr s \<longrightarrow> s \<noteq> [] \<longrightarrow> b64decode_utf8 e s = Some t \<longrightarrow>
           fst (get_file_content_from_repo e repo p tr) = Inr (t, dict_get d ''sha'')))
   \<and> ((\<exists>err. fst (get_file_content_from_repo e repo p tr) = Inl err) \<longleftrightarrow>
        http e tr (Get_contents repo p) = Conn_err
        \<or> (\<exists>body. http e tr (Get_contents repo p) = Response 200 body
             \<and> (body = None
                \<or> (\<exists>j. body = Some j \<and> (\<forall>d. j \<noteq> JObj d))
                \<or> (\<exists>d. body = Some (JObj d) \<and> truthy (dict_get d ''content'')
                      \<and> (\<forall>s t. dict_get d ''content'' = JStr s \<longrightarrow>
                                 b64decode_utf8 e s \<noteq> Some t)))))"
proof (intro conjI allI impI)
  let ?rq = "Get_contents repo p"
  let ?run = "get_file_content_from_repo e repo p tr"
  show "snd ?run = tr @ [Http ?rq (http e tr ?rq)]"
    by (rule snd_read)
  show "fst ?run = Inl ConnectionError" if "http e tr ?rq = Conn_err"
    using that by (simp add: get_file_content_from_repo_eq)
  show "fst ?run = Inr ([], JNull)" if "http e tr ?rq = Response st body" "st \<noteq> 200"
    for st body
    using that by (simp add: get_file_content_from_repo_eq file_of_response_def)
  show "fst ?run = Inl JSONDecodeError" if "http e tr ?rq = Response 200 None"
    using that by (rule read_200_not_json)
  show "fst ?run = Inl AttributeError"
    if "http e tr ?rq = Response 200 (Some j)" "\<forall>d. j \<noteq> JObj d" for j
    using that by (rule read_200_not_object)
  show "fst ?run = Inr ([], dict_get d ''sha'')"
    if "http e tr ?rq = Response 200 (Some (JObj d))" "\<not> truthy (dict_get d ''content'')" for d
    using that by (simp add: read_200_object)
  show "fst ?run = Inl TypeError"
    if "http e tr ?rq = Response 200 (Some (JObj d))" "truthy (dict_get d ''content'')"
      "\<forall>s. dict_get d ''content'' \<noteq> JStr s" for d
    using that by (cases "dict_get d ''content''") (simp_all add: read_200_object)
  show "fst ?run = Inl DecodeError"
    if "http e tr ?rq = Response 200 (Some (JObj d))" "dict_get d ''content'' = JStr s"
      "s \<noteq> []" "b64decode_utf8 e s = None" for d s
    using that by (simp add: read_200_object)
  show "fst ?run = Inr (t, dict_get d ''sha'')"
    if "http e tr ?rq = Response 200 (Some (JObj d))" "dict_get d ''content'' = JStr s"
      "s \<noteq> []" "b64decode_utf8 e s = Some t" for d s t
    using that by (simp add: read_200_object)
  show "(\<exists>err. fst ?run = Inl err) \<longleftrightarrow>
        http e tr ?rq = Conn_err
        \<or> (\<exists>body. http e tr ?rq = Response 200 body
             \<and> (body = None
                \<or> (\<exists>j. body = Some j \<and> (\<forall>d. j \<noteq> JObj d))
                \<or> (\<exists>d. body = Some (JObj d) \<and> truthy (dict_get d ''content'')
                      \<and> (\<forall>s t. dict_get d ''content'' = JStr s \<longrightarrow>
                                 b64decode_utf8 e s \<noteq> Some t))))"
  proof (cases "http e tr ?rq")
    case Conn_err
    then show ?thesis by (simp add: get_file_content_from_repo_eq)
  next
    case (Response st body)
    show ?thesis
    proof (cases "st = 200")
      case False
      with Response show ?thesis
        by (simp add: get_file_content_from_repo_eq file_of_response_def)
    next
      case True
      note r = Response [unfolded True]
      show ?thesis
      proof (cases body)
        case None
        with r read_200_not_json [of e tr repo p] show ?thesis by simp
      next
        case (Some j)
        show ?thesis
        proof (cases "\<exists>d. j = JObj d")
          case False
          with r Some read_200_not_object [of e tr repo p j] show ?thesis by simp
        next
          case True
          then obtain d where j: "j = JObj d" by blast
          from r Some j have a: "http e tr ?rq = Response 200 (Some (JObj d))" by simp
          show ?thesis
            unfolding read_200_object [OF a] a
            by (cases "dict_get d ''content''") (auto split: option.splits)
        qed
      qed
    qed
  qed
qed

theorem get_file_content_from_repo_outcomes_witness:
  "fst (get_file_content_from_repo env_offline (JStr ''demo'') (JStr ''index.html'') [])
     = Inl ConnectionError
   \<and> fst (get_file_content_from_repo env_unauthorized (JStr ''demo'') (JStr ''index.html'') [])
     = Inr ([], JNull)
   \<and> fst (get_file_content_from_repo env_bodies (JStr ''demo'') (JStr ''plain.txt'') [])
     = Inl JSONDecodeError
   \<and> fst (get_file_content_from_repo env_bodies (JStr ''demo'') (JStr ''docs'') [])
     = Inl AttributeError
   \<and> fst (get_file_content_from_repo env_bodies (JStr ''demo'') (JStr ''logo.png'') [])
     = Inl DecodeError
   \<and> fst (get_file_content_from_repo env_bodies (JStr ''demo'') (JStr ''count'') [])
     = Inl TypeError
   \<and> fst (get_file_content_from_repo env_bodies (JStr ''demo'') (JStr ''empty.txt'') [])
     = Inr ([], JStr ''5555555'')
   \<and> fst (get_file_content_from_repo env_bodies (JStr ''demo'') (JStr ''index.html'') [])
     = Inr (''b2xk'', JStr ''1111111'')"
proof -
  have off: "http env_offline [] (Get_contents (JStr ''demo'') (JStr ''index.html'')) = Conn_err"
    by (simp add: env_offline_def)
  have una: "http env_unauthorized [] (Get_contents (JStr ''demo'') (JStr ''index.html''))
      = Response 401 (Some (JObj [(''message'', JStr ''Bad credentials'')]))"
    by (simp add: env_unauthorized_def)
  have plain: "http env_bodies [] (Get_contents (JStr ''demo'') (JStr ''plain.txt''))
      = Response 200 None"
    by (simp add: env_bodies_def)
  have docs: "http env_bodies [] (Get_contents (JStr ''demo'') (JStr ''docs''))
      = Response 200 (Some (JArr []))"
    by (simp add: env_bodies_def)
  have logo: "http env_bodies [] (Get_contents (JStr ''demo'') (JStr ''logo.png''))
      = Response 200 (Some (JObj [(''content'', JStr ''iVBOR''), (''sha'', JStr ''3333333'')]))"
    by (simp add: env_bodies_def)
  have count: "http env_bodies [] (Get_contents (JStr ''demo'') (JStr ''count''))
      = Response 200 (Some (JObj [(''content'', JNum 7), (''sha'', JStr ''4444444'')]))"
    by (simp add: env_bodies_def)
  have empty: "http env_bodies [] (Get_contents (JStr ''demo'') (JStr ''empty.txt''))
      = Response 200 (Some (JObj [(''content'', JStr []), (''sha'', JStr ''5555555'')]))"
    by (simp add: env_bodies_def)
  have index: "http env_bodies [] (Get_contents (JStr ''demo'') (JStr ''index.html''))
      = Response 200 (Some (JObj [(''content'', JStr ''b2xk''), (''sha'', JStr ''1111111'')]))"
    by (simp add: env_bodies_def)
  have dec: "b64decode_utf8 env_bodies ''iVBOR'' = None"
    "b64decode_utf8 env_bodies ''b2xk'' = Some ''b2xk''"
    by (simp_all add: env_bodies_def)
  from get_file_content_from_repo_outcomes
         [of env_offline "JStr ''demo''" "JStr ''index.html''" "[]"] off
  have 1: "fst (get_file_content_from_repo env_offline (JStr ''demo'') (JStr ''index.html'') [])
     = Inl ConnectionError" by blast
  from get_file_content_from_repo_outcomes
         [of env_unauthorized "JStr ''demo''" "JStr ''index.html''" "[]"] una
  have 2: "fst (get_file_content_from_repo env_unauthorized (JStr ''demo'')
             (JStr ''index.html'') []) = Inr ([], JNull)" by simp
  from get_file_content_from_repo_outcomes
         [of env_bodies "JStr ''demo''" "JStr ''plain.txt''" "[]"] plain
  have 3: "fst (get_file_content_from_repo env_bodies (JStr ''demo'') (JStr ''plain.txt'') [])
     = Inl JSONDecodeError" by blast
  from get_file_content_from_repo_outcomes
         [of env_bodies "JStr ''demo''" "JStr ''docs''" "[]"] docs
  have 4: "fst (get_file_content_from_repo env_bodies (JStr ''demo'') (JStr ''docs'') [])
     = Inl AttributeError" by simp
  from get_file_content_from_repo_outcomes
         [of env_bodies "JStr ''demo''" "JStr ''logo.png''" "[]"] logo dec
  have 5: "fst (get_file_content_from_repo env_bodies (JStr ''demo'') (JStr ''logo.png'') [])
     = Inl DecodeError" by (simp add: dict_get_def)
  from get_file_content_from_repo_outcomes
         [of env_bodies "JStr ''demo''" "JStr ''count''" "[]"] count
  have 6: "fst (get_file_content_from_repo env_bodies (JStr ''demo'') (JStr ''count'') [])
     = Inl TypeError" by (simp add: dict_get_def)
  from get_file_content_from_repo_outcomes
         [of env_bodies "JStr ''demo''" "JStr ''empty.txt''" "[]"] empty
  have 7: "fst (get_file_content_from_repo env_bodies (JStr ''demo'') (JStr ''empty.txt'') [])
     = Inr ([], JStr ''5555555'')" by (simp add: dict_get_def)
  from get_file_content_from_repo_outcomes
         [of env_bodies "JStr ''demo''" "JStr ''index.html''" "[]"] index dec
  have 8: "fst (get_file_content_from_repo env_bodies (JStr ''demo'') (JStr ''index.html'') [])
     = Inr (''b2xk'', JStr ''1111111'')" by (simp add: dict_get_def)
  from 1 2 3 4 5 6 7 8 show ?thesis by blast
qed

section \<open>Intake\<close>

lemma validate_secret_iff:
  "validate_secret SECRET v \<longleftrightarrow> v = configured SECRET"
  by (cases SECRET) (auto simp: validate_secret_def configured_def)

lemma find_missing_None:
  "find (\<lambda>field. \<not> has_key data field) fs = None \<longleftrightarrow> (\<forall>f \<in> set fs. has_key data f)"
  by (induction fs) auto

lemma find_missing_Some:
  "find (\<lambda>field. \<not> has_key data field) fs = Some f \<Longrightarrow> f \<in> set fs \<and> \<not> has_key data f"
  by (induction fs) (auto split: if_splits)

text \<open>
  C7. A secret other than the configured one is answered 401; with the right secret, a
  body that lacks one of email, task, brief, evaluation_url is answered 400; otherwise the
  answer is the acknowledgment with the task and the round, and the task body is handed to
  the background runner, not run: the answer is computed from the secret and the body
  alone, so no outcome of the workflow can change it.
\<close>

theorem handle_task_answers:
  "(dict_get_default data ''secret'' (JStr []) \<noteq> configured SECRET \<longrightarrow>
      handle_task SECRET data = (HTTP_exception 401 Invalid_secret, []))
   \<and> (dict_get_default data ''secret'' (JStr []) = configured SECRET \<longrightarrow>
      (\<exists>f \<in> set [''email'', ''task'', ''brief'', ''evaluation_url'']. \<not> has_key data f) \<longrightarrow>
      (\<exists>f. \<not> has_key data f \<and>
           handle_task SECRET data = (HTTP_exception 400 (Missing_required_field f), [])))
   \<and> (dict_get_default data ''secret'' (JStr []) = configured SECRET \<longrightarrow>
      (\<forall>f \<in> set [''email'', ''task'', ''brief'', ''evaluation_url'']. has_key data f) \<longrightarrow>
      handle_task SECRET data
        = (Processing (dict_get data ''task'') (dict_get data ''round''), [data]))"
proof (intro conjI impI)
  assume "dict_get_default data ''secret'' (JStr []) \<noteq> configured SECRET"
  then show "handle_task SECRET data = (HTTP_exception 401 Invalid_secret, [])"
    by (simp add: handle_task_def validate_secret_iff)
next
  let ?fs = "[''email'', ''task'', ''brief'', ''evaluation_url'']"
  assume ok: "dict_get_default data ''secret'' (JStr []) = configured SECRET"
    and miss: "\<exists>f \<in> set ?fs. \<not> has_key data f"
  from miss have "find (\<lambda>field. \<not> has_key data field) ?fs \<noteq> None"
    using find_missing_None [of data ?fs] by blast
  then obtain f where f: "find (\<lambda>field. \<not> has_key data field) ?fs = Some f"
    by blast
  from find_missing_Some [OF f] have "\<not> has_key data f" by simp
  moreover from ok f
  have "handle_task SECRET data = (HTTP_exception 400 (Missing_required_field f), [])"
    unfolding handle_task_def validate_secret_iff by simp
  ultimately show "\<exists>f. \<not> has_key data f \<and>
      handle_task SECRET data = (HTTP_exception 400 (Missing_required_field f), [])"
    by blast
next
  let ?fs = "[''email'', ''task'', ''brief'', ''evaluation_url'']"
  assume ok: "dict_get_default data ''secret'' (JStr []) = configured SECRET"
    and all: "\<forall>f \<in> set ?fs. has_key data f"
  from all have "find (\<lambda>field. \<not> has_key data field) ?fs = None"
    using find_missing_None [of data ?fs] by blast
  with ok show "handle_task SECRET data
        = (Processing (dict_get data ''task'') (dict_get data ''round''), [data])"
    unfolding handle_task_def validate_secret_iff by simp
qed

theorem handle_task_answers_witness:
  "handle_task (Some ''s3'') task_ok = (Processing (JStr ''demo'') JNull, [task_ok])
   \<and> handle_task (Some ''s3'') (tl task_ok) = (HTTP_exception 401 Invalid_secret, [])
   \<and> handle_task (Some ''s3'') (take 2 task_ok)
       = (HTTP_exception 400 (Missing_required_field ''task''), [])"
  using handle_task_answers [of task_ok "Some ''s3''"]
    handle_task_answers [of "tl task_ok" "Some ''s3''"]
    handle_task_answers [of "take 2 task_ok" "Some ''s3''"]
  by (simp add: task_ok_def configured_def dict_get_default_def dict_get_def has_key_def
      handle_task_def validate_secret_def)

section \<open>A remote file with no content\<close>

text \<open>
  C9, as stated, fails at the write step. The repository is classified complete; then
  index.html is emptied. The Revision path leaves it out of the existing files, so its
  entry carries no token; the write step reads the file again and takes the token of the
  empty file: index.html is sent as an update with that token.
\<close>

theorem empty_file_token_used_by_write:
  "process_task_background env_emptied task_full []
     = (Update_completed (JStr ''demo''),
        [Http (Get_repo (JStr ''demo'')) (Response 200 (Some (JObj []))),
         Http (Get_contents (JStr ''demo'') (JStr ''index.html''))
           (Response 200 (Some (JObj [(''content'', JStr ''b2xk''), (''sha'', JStr ''1111111'')]))),
         Http (Get_contents (JStr ''demo'') (JStr ''README.md''))
           (Response 200 (Some (JObj [(''content'', JStr ''b2xk''), (''sha'', JStr ''2222222'')]))),
         Http (Get_contents (JStr ''demo'') (JStr ''index.html''))
           (Response 200 (Some (JObj [(''content'', JStr []), (''sha'', JStr ''1111111'')]))),
         Http (Get_contents (JStr ''demo'') (JStr ''README.md''))
           (Response 200 (Some (JObj [(''content'', JStr ''b2xk''), (''sha'', JStr ''2222222'')]))),
         Http (Post_chat (Update_prompt (JStr ''make a page'') [] []
                 [(JStr ''README.md'', JStr ''b2xk'')]))
           (Response 200 (Some (chat_body ''DOC''))),
         Http (Get_contents (JStr ''demo'') (JStr ''index.html''))
           (Response 200 (Some (JObj [(''content'', JStr []), (''sha'', JStr ''1111111'')]))),
         Http (Put_contents (JStr ''demo'') (JStr ''index.html'')
                 \<lparr>message_verb = Update, message_file = JStr ''index.html'',
                  message_round = JNum 2, payload_content = ''<h1>hi</h1>'',
                  payload_sha = Some (JStr ''1111111'')\<rparr>)
           (Response 200 (Some (JObj [(''content'', JObj [(''sha'', JStr ''f00dfeed'')])]))),
         Http (Put_contents (JStr ''demo'') (JStr ''README.md'')
                 \<lparr>message_verb = Update, message_file = JStr ''README.md'',
                  message_round = JNum 2, payload_content = ''# demo'',
                  payload_sha = Some (JStr ''2222222'')\<rparr>)
           (Response 200 (Some (JObj [(''content'', JObj [(''sha'', JStr ''f00dfeed'')])]))),
         Http (Get_commit (JStr ''demo'') ''main'')
           (Response 200 (Some (JObj [(''sha'', JStr ''c0ffee'')]))),
         Http (Post_evaluation (JStr ''http://eval'')
                 \<lparr>ep_email = JStr ''a@b.c'', ep_task = JStr ''demo'', ep_round = JNum 2,
                  ep_nonce = JStr ''n-1'', ep_repo_url = JStr ''demo'',
                  ep_commit_sha = JStr ''c0ffee'', ep_pages_url = JStr ''demo''\<rparr>)
           (Response 200 None)])"
  by (simp add: model_defs example_defs env_emptied_def)

text \<open>
  C9, amended. A file that exists with no content (the body has no content, or content
  that decodes to the empty string) is read as empty content together with its token. The
  classification takes such a file as missing: the run goes to the Creation path. The
  Revision path leaves such a file out of the existing files, so the generated entry for
  it gets no token from them. Nothing is said of the write step.
\<close>

theorem empty_file_missing_for_classification_and_context:
  "(\<forall>d. \<not> truthy (dict_get d ''content'')
          \<or> (\<exists>s. dict_get d ''content'' = JStr s \<and> b64decode_utf8 e s = Some [])
        \<longrightarrow> file_of_response e (200, Some (JObj d)) = Inr ([], dict_get d ''sha''))
   \<and> (let repo = dict_get data ''task'';
          ex = repository_exists e repo tr;
          idx = get_file_content_from_repo e repo (JStr ''index.html'') (snd ex);
          rdm = get_file_content_from_repo e repo (JStr ''README.md'') (snd idx)
      in fst ex = Inr True \<longrightarrow>
         unreadable (fst idx) \<or> (readable (fst idx) \<and> unreadable (fst rdm)) \<longrightarrow>
         fst (select_path e data tr) = Inr Creation)
   \<and> (let idx = get_file_content_from_repo e repo (JStr ''index.html'') tr;
          rdm = get_file_content_from_repo e repo (JStr ''README.md'') (snd idx)
      in \<forall>existing tr'.
           fetch_existing e repo [''index.html'', ''README.md''] [] tr = (Inr existing, tr') \<longrightarrow>
           (unreadable (fst idx) \<longrightarrow>
              (\<forall>ef \<in> set existing. ef_name ef \<noteq> JStr ''index.html'')
              \<and> (\<forall>d. dict_get d ''name'' = JStr ''index.html'' \<longrightarrow>
                     f_sha (update_entry (sha_map_of existing) d) = None))
           \<and> (unreadable (fst rdm) \<longrightarrow>
              (\<forall>ef \<in> set existing. ef_name ef \<noteq> JStr ''README.md'')
              \<and> (\<forall>d. dict_get d ''name'' = JStr ''README.md'' \<longrightarrow>
                     f_sha (update_entry (sha_map_of existing) d) = None)))"
proof (intro conjI)
  show "\<forall>d. \<not> truthy (dict_get d ''content'')
          \<or> (\<exists>s. dict_get d ''content'' = JStr s \<and> b64decode_utf8 e s = Some [])
        \<longrightarrow> file_of_response e (200, Some (JObj d)) = Inr ([], dict_get d ''sha'')"
    by (auto simp: file_of_response_def response_json_def)
next
  let ?repo = "dict_get data ''task''"
  let ?ex = "repository_exists e ?repo tr"
  let ?idx = "get_file_content_from_repo e ?repo (JStr ''index.html'') (snd ?ex)"
  let ?rdm = "get_file_content_from_repo e ?repo (JStr ''README.md'') (snd ?idx)"
  have "fst ?ex = Inr True \<longrightarrow>
         unreadable (fst ?idx) \<or> (readable (fst ?idx) \<and> unreadable (fst ?rdm)) \<longrightarrow>
         fst (select_path e data tr) = Inr Creation"
    by (cases ?ex; cases ?idx; cases ?rdm)
       (auto simp: select_path_eq check_repo_has_required_files_eq readable_def unreadable_def
          split: sum.splits prod.splits if_splits)
  then show "let repo = dict_get data ''task'';
          ex = repository_exists e repo tr;
          idx = get_file_content_from_repo e repo (JStr ''index.html'') (snd ex);
          rdm = get_file_content_from_repo e repo (JStr ''README.md'') (snd idx)
      in fst ex = Inr True \<longrightarrow>
         unreadable (fst idx) \<or> (readable (fst idx) \<and> unreadable (fst rdm)) \<longrightarrow>
         fst (select_path e data tr) = Inr Creation"
    unfolding Let_def .
next
  let ?idx = "get_file_content_from_repo e repo (JStr ''index.html'') tr"
  let ?rdm = "get_file_content_from_repo e repo (JStr ''README.md'') (snd ?idx)"
  have "(unreadable (fst ?idx) \<longrightarrow>
              (\<forall>ef \<in> set existing. ef_name ef \<noteq> JStr ''index.html'')
              \<and> (\<forall>d. dict_get d ''name'' = JStr ''index.html'' \<longrightarrow>
                     f_sha (update_entry (sha_map_of existing) d) = None))
           \<and> (unreadable (fst ?rdm) \<longrightarrow>
              (\<forall>ef \<in> set existing. ef_name ef \<noteq> JStr ''README.md'')
              \<and> (\<forall>d. dict_get d ''name'' = JStr ''README.md'' \<longrightarrow>
                     f_sha (update_entry (sha_map_of existing) d) = None))"
    if "fetch_existing e repo [''index.html'', ''README.md''] [] tr = (Inr existing, tr')"
    for existing tr'
    using that unfolding fetch_existing_two
    by (cases ?idx; cases ?rdm)
       (auto simp: unreadable_def update_entry_def Let_def
          split: sum.splits prod.splits if_splits)
  then show "let idx = get_file_content_from_repo e repo (JStr ''index.html'') tr;
          rdm = get_file_content_from_repo e repo (JStr ''README.md'') (snd idx)
      in \<forall>existing tr'.
           fetch_existing e repo [''index.html'', ''README.md''] [] tr = (Inr existing, tr') \<longrightarrow>
           (unreadable (fst idx) \<longrightarrow>
              (\<forall>ef \<in> set existing. ef_name ef \<noteq> JStr ''index.html'')
              \<and> (\<forall>d. dict_get d ''name'' = JStr ''index.html'' \<longrightarrow>
                     f_sha (update_entry (sha_map_of existing) d) = None))
           \<and> (unreadable (fst rdm) \<longrightarrow>
              (\<forall>ef \<in> set existing. ef_name ef \<noteq> JStr ''README.md'')
              \<and> (\<forall>d. dict_get d ''name'' = JStr ''README.md'' \<longrightarrow>
                     f_sha (update_entry (sha_map_of existing) d) = None))"
    unfolding Let_def by blast
qed

theorem empty_file_missing_for_classification_and_context_witness:
  "file_of_response env_emptied
       (200, Some (JObj [(''content'', JStr []), (''sha'', JStr ''1111111'')]))
     = Inr ([], JStr ''1111111'')
   \<and> fst (select_path env_emptied task_full trace_classified) = Inr Creation
   \<and> fst (fetch_existing env_emptied (JStr ''demo'') [''index.html'', ''README.md''] []
            trace_classified)
       = Inr [\<lparr>ef_name = JStr ''README.md'', ef_content = ''b2xk'', ef_sha = JStr ''2222222''\<rparr>]
   \<and> f_sha (update_entry
              (sha_map_of [\<lparr>ef_name = JStr ''README.md'', ef_content = ''b2xk'',
                            ef_sha = JStr ''2222222''\<rparr>])
              [(''name'', JStr ''index.html''), (''content'', JStr ''<h1>hi</h1>'')]) = None"
  using empty_file_missing_for_classification_and_context
          [of env_emptied task_full trace_classified "JStr ''demo''"]
  by (simp add: trace_classified_eq model_defs example_defs env_emptied_def)

section \<open>A task body without round or nonce\<close>

lemma missing_round_fails_build:
  assumes "\<not> has_key data ''round'' \<or> \<not> has_key data ''nonce''"
  shows "fails (build_initial_application e data)"
  unfolding build_initial_application_def
  by (intro fails_bind notify_and_return_incomplete_fails assms)

lemma missing_round_fails_revise:
  assumes "\<not> has_key data ''round'' \<or> \<not> has_key data ''nonce''"
  shows "fails (revise_existing_application e data)"
  unfolding revise_existing_application_def
  by (intro fails_bind notify_and_return_incomplete_fails assms)

lemma missing_round_fails_workflow:
  assumes "\<not> has_key data ''round'' \<or> \<not> has_key data ''nonce''"
  shows "fails (workflow e data)"
  unfolding workflow_def
  by (intro fails_bind fails_path_case fails_bind_left
      missing_round_fails_build missing_round_fails_revise assms)

lemma missing_round_silent_build:
  assumes "\<not> has_key data ''round'' \<or> \<not> has_key data ''nonce''"
  shows "appends (\<lambda>ev. \<not> is_notification ev) (build_initial_application e data)"
  unfolding build_initial_application_def
  by (intro appends_bind appends_lift appends_write_code_with_llm appends_create_github_repo
      appends_push_files appends_enable_github_pages appends_get_sha_of_latest_commit
      notify_and_return_incomplete_appends assms) simp_all

lemma missing_round_silent_revise:
  assumes "\<not> has_key data ''round'' \<or> \<not> has_key data ''nonce''"
  shows "appends (\<lambda>ev. \<not> is_notification ev) (revise_existing_application e data)"
  unfolding revise_existing_application_def
  by (intro appends_bind appends_lift appends_fetch_existing appends_update_code_with_llm
      appends_push_files appends_get_sha_of_latest_commit
      notify_and_return_incomplete_appends assms) simp_all

lemma missing_round_silent_workflow:
  assumes "\<not> has_key data ''round'' \<or> \<not> has_key data ''nonce''"
  shows "appends (\<lambda>ev. \<not> is_notification ev) (workflow e data)"
  unfolding workflow_def
  by (intro appends_bind appends_path_case appends_ret appends_select_path
      missing_round_silent_build missing_round_silent_revise assms) simp_all

text \<open>
  C10. Intake accepts a body without round or nonce (C7 asks for four other fields). For
  such a body the run always ends in the failure that the top level logs, and no
  notification is ever sent; the step that fails is the construction of the evaluation
  payload, which comes after the repository was created, the files pushed, hosting enabled
  and the commit read, and it leaves the trace, hence those effects, as they are.
\<close>

theorem missing_round_or_nonce_never_notifies:
  "\<not> has_key data ''round'' \<or> \<not> has_key data ''nonce'' \<longrightarrow>
     (\<exists>err. fst (process_task_background e data tr) = Processing_failed err)
     \<and> (\<exists>new. snd (process_task_background e data tr) = tr @ new
              \<and> list_all (\<lambda>ev. \<not> is_notification ev) new)
     \<and> (has_key data ''email'' \<longrightarrow> has_key data ''task'' \<longrightarrow>
          (\<forall>repo commit_sha tr'.
             notify_and_return e data repo commit_sha tr'
               = (Inl (KeyError (if has_key data ''round'' then ''nonce'' else ''round'')), tr')))"
proof (intro impI conjI allI)
  assume missing: "\<not> has_key data ''round'' \<or> \<not> has_key data ''nonce''"
  from failsD [OF missing_round_fails_workflow [OF missing], of e tr]
  obtain err where "fst (workflow e data tr) = Inl err" by blast
  then have "fst (process_task_background e data tr) = Processing_failed err"
    by (cases "workflow e data tr") (simp add: process_task_background_workflow)
  then show "\<exists>err. fst (process_task_background e data tr) = Processing_failed err" ..
next
  assume missing: "\<not> has_key data ''round'' \<or> \<not> has_key data ''nonce''"
  from appendsD [OF missing_round_silent_workflow [OF missing], of e tr]
  show "\<exists>new. snd (process_task_background e data tr) = tr @ new
              \<and> list_all (\<lambda>ev. \<not> is_notification ev) new"
    by (simp add: snd_process_task_background)
next
  fix repo commit_sha tr'
  assume "\<not> has_key data ''round'' \<or> \<not> has_key data ''nonce''"
    and "has_key data ''email''" and "has_key data ''task''"
  then show "notify_and_return e data repo commit_sha tr'
               = (Inl (KeyError (if has_key data ''round'' then ''nonce'' else ''round'')), tr')"
    by (auto simp: notify_and_return_def evaluation_payload_of_def and_then_def item_def
        has_key_def bind_def lift_def split: option.splits)
qed

theorem missing_round_or_nonce_never_notifies_witness:
  "handle_task (Some ''s3'') task_ok = (Processing (JStr ''demo'') JNull, [task_ok])
   \<and> \<not> has_key task_ok ''round''
   \<and> process_task_background env_absent task_ok []
       = (Processing_failed (KeyError ''round''),
          [Http (Get_repo (JStr ''demo'')) (Response 404 None),
           Http (Post_chat (Initial_prompt (JStr ''make a page'') [] []))
             (Response 200 (Some (chat_body ''DOC''))),
           Http (Post_user_repos (JStr ''demo'')) (Response 201 (Some (JObj []))),
           Http (Put_contents (JStr ''demo'') (JStr ''index.html'')
                   \<lparr>message_verb = Add, message_file = JStr ''index.html'',
                    message_round = JNum 1, payload_content = ''<h1>hi</h1>'',
                    payload_sha = None\<rparr>)
             (Response 201 (Some (JObj [(''content'', JObj [(''sha'', JStr ''f00dfeed'')])]))),
           Http (Put_contents (JStr ''demo'') (JStr ''README.md'')
                   \<lparr>message_verb = Add, message_file = JStr ''README.md'',
                    message_round = JNum 1, payload_content = ''# demo'',
                    payload_sha = None\<rparr>)
             (Response 201 (Some (JObj [(''content'', JObj [(''sha'', JStr ''f00dfeed'')])]))),
           Http (Post_pages (JStr ''demo'')) (Response 201 None),
           Http (Get_commit (JStr ''demo'') ''main'')
             (Response 200 (Some (JObj [(''sha'', JStr ''c0ffee'')])))])"
  using missing_round_or_nonce_never_notifies [of task_ok env_absent "[]"]
  by (simp add: model_defs example_defs handle_task_def validate_secret_def)

end
